theory Spec2Isabelle
  imports Main
begin

section \<open>Strings of the host language\<close>

text \<open>
  The server is TypeScript. Strings are modelled as \<open>string\<close>; the three characters
  that the quoting code of \<open>runKubectl\<close> looks at are named here.
\<close>

abbreviation dquote :: char where "dquote \<equiv> CHR 0x22"
abbreviation squote :: char where "squote \<equiv> CHR 0x27"
abbreviation backslash :: char where "backslash \<equiv> CHR 0x5C"

text \<open>\<^verbatim>\<open>xs.join(sep)\<close> on an array of strings.\<close>

fun join :: "string \<Rightarrow> string list \<Rightarrow> string" where
  "join sep [] = []"
| "join sep [x] = x"
| "join sep (x # y # ys) = x @ sep @ join sep (y # ys)"

text \<open>
  \<^verbatim>\<open>s.split(" ")\<close>: the string is cut at every single space; two spaces in a row give an
  empty piece, and the empty string gives one empty piece.
\<close>

fun split_acc :: "char \<Rightarrow> string \<Rightarrow> string \<Rightarrow> string list" where
  "split_acc d cur [] = [cur]"
| "split_acc d cur (c # cs) =
     (if c = d then cur # split_acc d [] cs else split_acc d (cur @ [c]) cs)"

definition split :: "string \<Rightarrow> string list" where
  "split s = split_acc CHR '' '' [] s"

text \<open>\<^verbatim>\<open>x || d\<close> on a possibly missing string: missing and empty are both falsy.\<close>

definition or_else :: "string option \<Rightarrow> string \<Rightarrow> string" where
  "or_else x d = (case x of None \<Rightarrow> d | Some s \<Rightarrow> if s = [] then d else s)"

section \<open>Environment configuration (index.ts, lines 10-20)\<close>

record env =
  env_KUBECONFIG :: "string option"
  env_K8S_CONTEXT :: "string option"
  env_K8S_DEFAULT_NAMESPACE :: "string option"
  env_KUBECTL_PATH :: "string option"
  env_K8S_SSH_HOST :: "string option"
  env_K8S_SSH_USER :: "string option"
  env_K8S_SSH_PASSWORD :: "string option"
  env_K8S_SSH_KEY :: "string option"
  platform_win32 :: bool

definition KUBECONFIG :: "env \<Rightarrow> string" where
  "KUBECONFIG e = or_else (env_KUBECONFIG e) []"

definition K8S_CONTEXT :: "env \<Rightarrow> string" where
  "K8S_CONTEXT e = or_else (env_K8S_CONTEXT e) []"

definition K8S_DEFAULT_NAMESPACE :: "env \<Rightarrow> string" where
  "K8S_DEFAULT_NAMESPACE e = or_else (env_K8S_DEFAULT_NAMESPACE e) ''default''"

definition KUBECTL_PATH :: "env \<Rightarrow> string" where
  "KUBECTL_PATH e = or_else (env_KUBECTL_PATH e) ''kubectl''"

definition K8S_SSH_HOST :: "env \<Rightarrow> string" where
  "K8S_SSH_HOST e = or_else (env_K8S_SSH_HOST e) []"

definition K8S_SSH_USER :: "env \<Rightarrow> string" where
  "K8S_SSH_USER e = or_else (env_K8S_SSH_USER e) []"

definition K8S_SSH_PASSWORD :: "env \<Rightarrow> string" where
  "K8S_SSH_PASSWORD e = or_else (env_K8S_SSH_PASSWORD e) []"

definition K8S_SSH_KEY :: "env \<Rightarrow> string" where
  "K8S_SSH_KEY e = or_else (env_K8S_SSH_KEY e) []"

section \<open>The command executor \<open>runKubectl\<close> (index.ts, lines 22-128)\<close>

record KubectlResult =
  stdout :: string
  stderr :: string
  code :: int

subsection \<open>Building the process invocation (lines 31-100)\<close>

text \<open>\<^verbatim>\<open>arg.replace(/"/g, '\\"')\<close>: a backslash goes before every double quote.\<close>

definition escape_dquotes :: "string \<Rightarrow> string" where
  "escape_dquotes arg = concat (map (\<lambda>c. if c = dquote then [backslash, dquote] else [c]) arg)"

text \<open>The way back: a backslash right before a double quote is taken out.\<close>

fun unescape_dquotes :: "string \<Rightarrow> string" where
  "unescape_dquotes [] = []"
| "unescape_dquotes [c] = [c]"
| "unescape_dquotes (c # d # cs) =
     (if c = backslash \<and> d = dquote then dquote # unescape_dquotes cs
      else c # unescape_dquotes (d # cs))"

text \<open>The callback of \<^verbatim>\<open>args.map\<close> at lines 37-43.\<close>

definition escapeArg :: "string \<Rightarrow> string" where
  "escapeArg arg =
     (if squote \<in> set arg \<or> CHR '' '' \<in> set arg
      then [dquote] @ escape_dquotes arg @ [dquote]
      else arg)"

definition kubectlCmd :: "string list \<Rightarrow> string" where
  "kubectlCmd args = ''sudo kubectl '' @ join '' '' (map escapeArg args)"

definition ssh_target :: "env \<Rightarrow> string" where
  "ssh_target e = K8S_SSH_USER e @ ''@'' @ K8S_SSH_HOST e"

text \<open>
  The pair \<open>(command, spawnArgs)\<close> handed to \<^verbatim>\<open>spawn\<close>. In local mode the two
  \<^verbatim>\<open>unshift\<close> calls run in the order kubeconfig, context, so the context flag ends up
  first.
\<close>

definition spawn_invocation :: "env \<Rightarrow> string list \<Rightarrow> string \<times> string list" where
  "spawn_invocation e args =
     (if K8S_SSH_HOST e \<noteq> [] then
        (if K8S_SSH_KEY e \<noteq> [] then
           (''ssh'',
            [''-i'', K8S_SSH_KEY e,
             ''-o'', ''StrictHostKeyChecking=no'',
             ''-o'', ''UserKnownHostsFile=/dev/null'',
             ''-o'', ''BatchMode=yes'',
             ssh_target e,
             kubectlCmd args])
         else if K8S_SSH_PASSWORD e \<noteq> [] then
           (if platform_win32 e then
              (''plink'',
               [''-batch'',
                ''-pw'', K8S_SSH_PASSWORD e,
                ssh_target e,
                kubectlCmd args])
            else
              (''sshpass'',
               [''-p'', K8S_SSH_PASSWORD e,
                ''ssh'',
                ''-o'', ''StrictHostKeyChecking=no'',
                ''-o'', ''UserKnownHostsFile=/dev/null'',
                ssh_target e,
                kubectlCmd args]))
         else
           (''ssh'',
            [''-o'', ''StrictHostKeyChecking=no'',
             ssh_target e,
             kubectlCmd args]))
      else
        (let spawnArgs = args;
             spawnArgs = (if KUBECONFIG e \<noteq> []
                          then (''--kubeconfig='' @ KUBECONFIG e) # spawnArgs else spawnArgs);
             spawnArgs = (if K8S_CONTEXT e \<noteq> []
                          then (''--context='' @ K8S_CONTEXT e) # spawnArgs else spawnArgs)
         in (KUBECTL_PATH e, spawnArgs)))"

subsection \<open>The spawned process (lines 102-127)\<close>

text \<open>
  What the child process does is outside the program: it is a sequence of events on the
  four listeners that \<open>runKubectl\<close> registers. \<open>Close\<close> carries the exit code, which is
  \<^verbatim>\<open>null\<close> (here \<open>None\<close>) when the process was ended by a signal.
\<close>

datatype proc_event =
  StdoutData string
| StderrData string
| Close "int option"
| ErrorEvent string

text \<open>
  A promise is pending, resolved with a value, or rejected with an error whose
  \<^verbatim>\<open>message\<close> is kept.
\<close>

datatype 'a promise = Pending | Resolved 'a | Rejected string

text \<open>
  The listeners run over the events in order, with the two accumulators \<open>stdout\<close> and
  \<open>stderr\<close>. The first \<open>close\<close> or \<open>error\<close> event settles the promise; \<^verbatim>\<open>resolve\<close> on a
  settled promise does nothing, so later events are ignored. \<^verbatim>\<open>code || 0\<close> turns
  \<^verbatim>\<open>null\<close> into 0.
\<close>

fun listen :: "string \<Rightarrow> string \<Rightarrow> proc_event list \<Rightarrow> KubectlResult promise" where
  "listen out err [] = Pending"
| "listen out err (StdoutData d # es) = listen (out @ d) err es"
| "listen out err (StderrData d # es) = listen out (err @ d) es"
| "listen out err (Close c # es) =
     Resolved \<lparr>stdout = out, stderr = err, code = (case c of None \<Rightarrow> 0 | Some n \<Rightarrow> n)\<rparr>"
| "listen out err (ErrorEvent m # es) =
     Resolved \<lparr>stdout = [], stderr = m, code = 1\<rparr>"

text \<open>
  The call of \<^verbatim>\<open>spawn\<close> at line 102 and the registration of the first listener at
  line 107 run inside the executor of the promise, with no \<^verbatim>\<open>try\<close> around them. The
  call can throw (an argument with a NUL character is refused), and the child can come
  without its standard streams (no file descriptor left), so that \<^verbatim>\<open>proc.stdout.on\<close>
  throws. Both are \<open>Throws\<close> with the message of the error: an exception in the executor
  rejects the promise. Otherwise there is a child with its sequence of events.
\<close>

datatype spawn_outcome =
  Throws string
| Child "proc_event list"

fun settle :: "spawn_outcome \<Rightarrow> KubectlResult promise" where
  "settle (Throws m) = Rejected m"
| "settle (Child evs) = listen [] [] evs"

text \<open>
  The outside world: what the call of \<^verbatim>\<open>spawn\<close> with a command, its arguments and the
  text written to the standard input of the child leads to.
\<close>

type_synonym world = "string \<Rightarrow> string list \<Rightarrow> string option \<Rightarrow> spawn_outcome"

text \<open>\<^verbatim>\<open>if (options?.stdin)\<close>: text is written only when it is present and not empty.\<close>

definition stdin_written :: "string option \<Rightarrow> string option" where
  "stdin_written i = (case i of None \<Rightarrow> None | Some s \<Rightarrow> if s = [] then None else Some s)"

record invocation =
  inv_command :: string
  inv_args :: "string list"
  inv_stdin :: "string option"

definition spawned :: "env \<Rightarrow> string list \<Rightarrow> string option \<Rightarrow> invocation" where
  "spawned e args i =
     \<lparr>inv_command = fst (spawn_invocation e args),
      inv_args = snd (spawn_invocation e args),
      inv_stdin = stdin_written i\<rparr>"

text \<open>
  The option \<^verbatim>\<open>shell: true\<close> of line 102: \<^verbatim>\<open>spawn\<close> joins the command and the arguments
  by single spaces and hands this one line to the shell (\<^verbatim>\<open>/bin/sh -c\<close> where the
  platform is not Windows), which cuts it into words again.
\<close>

definition shell_line :: "invocation \<Rightarrow> string" where
  "shell_line p = join '' '' (inv_command p # inv_args p)"

text \<open>
  The words that the shell makes of such a line, for the lines of a fragment without
  expansions. A word is made of letters, digits and the characters \<^verbatim>\<open>- _ . / : , @ + =\<close>,
  of text between single quotes, and of text between double quotes, where a backslash
  before a double quote or a backslash stands for that character. Spaces between words
  separate them. Every other line (another character outside quotes, a dollar sign, a
  backquote or an escaped line end between double quotes, a quote left open) is outside
  the fragment and gives \<open>None\<close>.
\<close>

datatype quoting = Unquoted | InDouble | InSingle

definition sh_plain :: "char \<Rightarrow> bool" where
  "sh_plain c =
     (c \<in> set (''abcdefghijklmnopqrstuvwxyz'' @ ''ABCDEFGHIJKLMNOPQRSTUVWXYZ'' @
               ''0123456789'' @ ''-_./:,@+=''))"

definition word_of :: "string option \<Rightarrow> string" where
  "word_of cur = (case cur of None \<Rightarrow> [] | Some wd \<Rightarrow> wd)"

text \<open>\<open>cur\<close> is the word being read, \<open>None\<close> between words.\<close>

fun sh_scan :: "quoting \<Rightarrow> string option \<Rightarrow> string \<Rightarrow> string list option" where
  "sh_scan Unquoted cur [] = Some (case cur of None \<Rightarrow> [] | Some wd \<Rightarrow> [wd])"
| "sh_scan InDouble cur [] = None"
| "sh_scan InSingle cur [] = None"
| "sh_scan Unquoted cur (c # cs) =
     (if c = CHR '' '' then
        (case cur of
           None \<Rightarrow> sh_scan Unquoted None cs
         | Some wd \<Rightarrow> map_option ((#) wd) (sh_scan Unquoted None cs))
      else if c = dquote then sh_scan InDouble (Some (word_of cur)) cs
      else if c = squote then sh_scan InSingle (Some (word_of cur)) cs
      else if sh_plain c then sh_scan Unquoted (Some (word_of cur @ [c])) cs
      else None)"
| "sh_scan InDouble cur [c] = (if c = dquote then sh_scan Unquoted cur [] else None)"
| "sh_scan InDouble cur (c # d # cs) =
     (if c = dquote then sh_scan Unquoted cur (d # cs)
      else if c = CHR ''$'' \<or> c = CHR 0x60 then None
      else if c = backslash then
        (if d = dquote \<or> d = backslash then sh_scan InDouble (Some (word_of cur @ [d])) cs
         else if d = CHR 0x0A then None
         else sh_scan InDouble (Some (word_of cur @ [backslash])) (d # cs))
      else sh_scan InDouble (Some (word_of cur @ [c])) (d # cs))"
| "sh_scan InSingle cur (c # cs) =
     (if c = squote then sh_scan Unquoted cur cs
      else sh_scan InSingle (Some (word_of cur @ [c])) cs)"

definition sh_words :: "string \<Rightarrow> string list option" where
  "sh_words line = sh_scan Unquoted None line"

text \<open>What the call of \<^verbatim>\<open>spawn\<close> that \<open>runKubectl\<close> makes leads to.\<close>

definition spawn_call :: "env \<Rightarrow> world \<Rightarrow> string list \<Rightarrow> string option \<Rightarrow> spawn_outcome" where
  "spawn_call e w args i =
     (let p = spawned e args i in w (inv_command p) (inv_args p) (inv_stdin p))"

definition runKubectl :: "env \<Rightarrow> world \<Rightarrow> string list \<Rightarrow> string option \<Rightarrow> KubectlResult promise" where
  "runKubectl e w args i = settle (spawn_call e w args i)"

text \<open>The two events that only add to the accumulators.\<close>

fun is_data :: "proc_event \<Rightarrow> bool" where
  "is_data (StdoutData d) = True"
| "is_data (StderrData d) = True"
| "is_data ev = False"

text \<open>
  In a command string, every double quote has a backslash right before it: \<open>preceded\<close>
  walks the string with the previous character at hand.
\<close>

fun preceded :: "char \<Rightarrow> string \<Rightarrow> bool" where
  "preceded p [] = True"
| "preceded p (c # cs) = ((c = dquote \<longrightarrow> p = backslash) \<and> preceded c cs)"

section \<open>Values of the host language\<close>

text \<open>\<^verbatim>\<open>String(n)\<close> and \<^verbatim>\<open>`${n}`\<close> for an integral number: its decimal numeral.\<close>

fun nat_digits :: "nat \<Rightarrow> string" where
  "nat_digits n =
     (if n < 10 then [''0123456789'' ! n]
      else nat_digits (n div 10) @ [''0123456789'' ! (n mod 10)])"

declare nat_digits.simps [simp del]

definition String :: "int \<Rightarrow> string" where
  "String n = (if n < 0 then ''-'' @ nat_digits (nat (- n)) else nat_digits (nat n))"

text \<open>A template literal \<^verbatim>\<open>`${x}`\<close> prints a missing value as \<^verbatim>\<open>undefined\<close>.\<close>

definition tmpl :: "string option \<Rightarrow> string" where
  "tmpl x = (case x of None \<Rightarrow> ''undefined'' | Some s \<Rightarrow> s)"

definition tmpl_num :: "int option \<Rightarrow> string" where
  "tmpl_num x = (case x of None \<Rightarrow> ''undefined'' | Some n \<Rightarrow> String n)"

text \<open>Truthiness of an optional boolean, string and number argument.\<close>

definition truthy_bool :: "bool option \<Rightarrow> bool" where
  "truthy_bool b = (b = Some True)"

definition truthy_str :: "string option \<Rightarrow> bool" where
  "truthy_str x = (case x of None \<Rightarrow> False | Some s \<Rightarrow> s \<noteq> [])"

definition truthy_num :: "int option \<Rightarrow> bool" where
  "truthy_num x = (case x of None \<Rightarrow> False | Some n \<Rightarrow> n \<noteq> 0)"

text \<open>\<^verbatim>\<open>s.trim()\<close>, on the whitespace characters of ASCII.\<close>

definition is_space :: "char \<Rightarrow> bool" where
  "is_space c = (c \<in> set [CHR 0x09, CHR 0x0A, CHR 0x0B, CHR 0x0C, CHR 0x0D, CHR 0x20])"

definition trim :: "string \<Rightarrow> string" where
  "trim s = rev (dropWhile is_space (rev (dropWhile is_space s)))"

subsection \<open>Parsed JSON\<close>

text \<open>
  The values that \<^verbatim>\<open>JSON.parse\<close> returns, and \<^verbatim>\<open>undefined\<close> for a property that is
  not there. An object is the list of its entries in the order of \<^verbatim>\<open>Object.entries\<close>.
  Numbers are integral here; no branch computes with them.
\<close>

datatype json =
  JUndefined
| JNull
| JBool bool
| JNum int
| JStr string
| JArr "json list"
| JObj "(string \<times> json) list"

text \<open>
  The parts of the JavaScript runtime that the dispatcher calls and that are not part
  of the repository. An \<open>Inl\<close> is the message of the exception thrown.
  \<^item> \<open>JSON_parse\<close>: \<^verbatim>\<open>JSON.parse(text)\<close>;
  \<^item> \<open>JSON_stringify\<close>: \<^verbatim>\<open>JSON.stringify(value, null, 2)\<close>;
  \<^item> \<open>base64_utf8\<close>: \<^verbatim>\<open>Buffer.from(s, "base64").toString("utf-8")\<close> for a string \<open>s\<close>;
  \<^item> \<open>Buffer_from_other\<close>: the same expression for a value that is not a string;
  \<^item> \<open>read_of_nullish\<close>: the message of the TypeError for reading a property of
    \<^verbatim>\<open>undefined\<close> or \<^verbatim>\<open>null\<close>;
  \<^item> \<open>not_a_function\<close>: the message of the TypeError for calling a property that is
    not a function.
\<close>

record runtime =
  JSON_parse :: "string \<Rightarrow> string + json"
  JSON_stringify :: "json \<Rightarrow> string"
  base64_utf8 :: "string \<Rightarrow> string"
  Buffer_from_other :: "json \<Rightarrow> string + string"
  read_of_nullish :: "json \<Rightarrow> string \<Rightarrow> string"
  not_a_function :: "string \<Rightarrow> string"

definition bind_err :: "string + 'a \<Rightarrow> ('a \<Rightarrow> string + 'b) \<Rightarrow> string + 'b" where
  "bind_err m f = (case m of Inl e \<Rightarrow> Inl e | Inr x \<Rightarrow> f x)"

fun map_err :: "('a \<Rightarrow> string + 'b) \<Rightarrow> 'a list \<Rightarrow> string + 'b list" where
  "map_err f [] = Inr []"
| "map_err f (x # xs) =
     bind_err (f x) (\<lambda>y. bind_err (map_err f xs) (\<lambda>ys. Inr (y # ys)))"

text \<open>
  \<^verbatim>\<open>v.p\<close> for the property names the dispatcher reads (none of them is \<^verbatim>\<open>length\<close> or
  the name of a method): an object gives the entry or \<^verbatim>\<open>undefined\<close>, \<^verbatim>\<open>undefined\<close> and
  \<^verbatim>\<open>null\<close> throw, every other value gives \<^verbatim>\<open>undefined\<close>.
\<close>

fun get_prop :: "runtime \<Rightarrow> json \<Rightarrow> string \<Rightarrow> string + json" where
  "get_prop rt JUndefined p = Inl (read_of_nullish rt JUndefined p)"
| "get_prop rt JNull p = Inl (read_of_nullish rt JNull p)"
| "get_prop rt (JObj kvs) p = Inr (case map_of kvs p of None \<Rightarrow> JUndefined | Some v \<Rightarrow> v)"
| "get_prop rt v p = Inr JUndefined"

text \<open>\<^verbatim>\<open>a.b.c\<close>: a chain of property reads.\<close>

fun get_path :: "runtime \<Rightarrow> json \<Rightarrow> string list \<Rightarrow> string + json" where
  "get_path rt v [] = Inr v"
| "get_path rt v (p # ps) = bind_err (get_prop rt v p) (\<lambda>v'. get_path rt v' ps)"

text \<open>Truthiness of a parsed value.\<close>

fun truthy :: "json \<Rightarrow> bool" where
  "truthy JUndefined = False"
| "truthy JNull = False"
| "truthy (JBool b) = b"
| "truthy (JNum n) = (n \<noteq> 0)"
| "truthy (JStr s) = (s \<noteq> [])"
| "truthy (JArr xs) = True"
| "truthy (JObj kvs) = True"

text \<open>
  \<^verbatim>\<open>Object.entries(v)\<close> for a truthy value: the entries of an object, the indexed
  elements of an array, the indexed characters of a string, nothing for a number or a
  boolean. \<^verbatim>\<open>Object.keys\<close> gives the first components.
\<close>

fun Object_entries :: "json \<Rightarrow> (string \<times> json) list" where
  "Object_entries (JObj kvs) = kvs"
| "Object_entries (JArr xs) = zip (map (\<lambda>i. nat_digits i) [0..<length xs]) xs"
| "Object_entries (JStr s) = zip (map (\<lambda>i. nat_digits i) [0..<length s]) (map (\<lambda>c. JStr [c]) s)"
| "Object_entries v = []"

definition Object_keys :: "json \<Rightarrow> string list" where
  "Object_keys v = map fst (Object_entries v)"

text \<open>
  \<^verbatim>\<open>obj[key] = value\<close> on an object made by a literal, for a value that is a string:
  an existing entry is overwritten in place, a new one is added at the end. The key
  \<^verbatim>\<open>__proto__\<close> is the accessor inherited from \<^verbatim>\<open>Object.prototype\<close>; its setter ignores
  a value that is neither an object nor \<^verbatim>\<open>null\<close>, so no entry is made.
\<close>

fun update_entry :: "string \<Rightarrow> json \<Rightarrow> (string \<times> json) list \<Rightarrow> (string \<times> json) list" where
  "update_entry k v [] = [(k, v)]"
| "update_entry k v ((k', v') # kvs) =
     (if k' = k then (k, v) # kvs else (k', v') # update_entry k v kvs)"

definition set_prop :: "(string \<times> json) list \<Rightarrow> string \<Rightarrow> string \<Rightarrow> (string \<times> json) list" where
  "set_prop obj key s = (if key = ''__proto__'' then obj else update_entry key (JStr s) obj)"

section \<open>The tool catalogue (index.ts, lines 151-748)\<close>

text \<open>The \<^verbatim>\<open>name\<close> field of every descriptor of the array \<^verbatim>\<open>tools\<close>, in its order.\<close>

definition tools :: "string list" where
  "tools =
    [''k8s_get_cluster_info'', ''k8s_list_nodes'', ''k8s_get_node'', ''k8s_describe_node'',
     ''k8s_list_namespaces'', ''k8s_create_namespace'', ''k8s_delete_namespace'',
     ''k8s_list_pods'', ''k8s_get_pod'', ''k8s_describe_pod'', ''k8s_get_pod_logs'',
     ''k8s_delete_pod'', ''k8s_exec_pod'', ''k8s_list_deployments'', ''k8s_get_deployment'',
     ''k8s_describe_deployment'', ''k8s_scale_deployment'', ''k8s_restart_deployment'',
     ''k8s_update_deployment_image'', ''k8s_list_services'', ''k8s_get_service'',
     ''k8s_describe_service'', ''k8s_list_configmaps'', ''k8s_get_configmap'',
     ''k8s_create_configmap'', ''k8s_delete_configmap'', ''k8s_list_secrets'',
     ''k8s_get_secret'', ''k8s_create_secret'', ''k8s_delete_secret'',
     ''k8s_list_statefulsets'', ''k8s_get_statefulset'', ''k8s_scale_statefulset'',
     ''k8s_list_daemonsets'', ''k8s_get_daemonset'', ''k8s_list_ingresses'',
     ''k8s_get_ingress'', ''k8s_apply_manifest'', ''k8s_delete_resource'', ''k8s_get_events'',
     ''k8s_get_resource_yaml'', ''k8s_get_all'', ''k8s_rollout_status'',
     ''k8s_rollout_history'', ''k8s_rollout_undo'', ''k8s_top_nodes'', ''k8s_top_pods'',
     ''k8s_get_contexts'', ''k8s_current_context'']"

section \<open>The tool dispatcher \<open>handleTool\<close> (index.ts, lines 131-133 and 751-1233)\<close>

text \<open>
  The argument mapping of a call, with the types that the input schemas declare and the
  casts of \<open>handleTool\<close> assume. A field that the caller may leave out is an option;
  \<open>arg_name\<close>, \<open>arg_command\<close>, \<open>arg_manifest\<close>, \<open>arg_resource_type\<close> and \<open>arg_data\<close>
  are read with a cast and used as they are, so they are plain values. \<open>arg_data\<close> is
  the list \<^verbatim>\<open>Object.entries(args.data)\<close>; the numbers \<open>arg_tail\<close>, \<open>arg_replicas\<close> and
  \<open>arg_revision\<close> are integral. A branch ignores the fields it does not read.
\<close>

record tool_args =
  arg_namespace :: "string option"
  arg_name :: string
  arg_all_namespaces :: "bool option"
  arg_label_selector :: "string option"
  arg_container :: "string option"
  arg_previous :: "bool option"
  arg_tail :: "int option"
  arg_since :: "string option"
  arg_force :: "bool option"
  arg_command :: string
  arg_replicas :: "int option"
  arg_image :: "string option"
  arg_data :: "(string \<times> string) list"
  arg_decode :: "bool option"
  arg_type :: "string option"
  arg_manifest :: string
  arg_dry_run :: "bool option"
  arg_resource_type :: string
  arg_revision :: "int option"

definition getNamespace :: "env \<Rightarrow> string option \<Rightarrow> string" where
  "getNamespace e namespace = or_else namespace (K8S_DEFAULT_NAMESPACE e)"

subsection \<open>Reshaping the client's JSON output\<close>

text \<open>Lines 771-780, the branch \<^verbatim>\<open>k8s_get_node\<close>.\<close>

fun find_ready :: "runtime \<Rightarrow> json list \<Rightarrow> string + json" where
  "find_ready rt [] = Inr JUndefined"
| "find_ready rt (c # cs) =
     bind_err (get_prop rt c ''type'')
       (\<lambda>t. if t = JStr ''Ready'' then Inr c else find_ready rt cs)"

definition ready_condition :: "runtime \<Rightarrow> json \<Rightarrow> string + json" where
  "ready_condition rt conditions =
     (case conditions of
        JUndefined \<Rightarrow> Inr JUndefined
      | JNull \<Rightarrow> Inr JUndefined
      | JArr cs \<Rightarrow> find_ready rt cs
      | _ \<Rightarrow> Inl (not_a_function rt ''find''))"

definition node_view :: "runtime \<Rightarrow> json \<Rightarrow> string + json" where
  "node_view rt node =
     bind_err (get_path rt node [''metadata'', ''name'']) (\<lambda>name.
     bind_err (get_path rt node [''metadata'', ''labels'']) (\<lambda>labels.
     bind_err (get_path rt node [''status'', ''conditions'']) (\<lambda>conditions.
     bind_err (ready_condition rt conditions) (\<lambda>found.
     bind_err (case found of JUndefined \<Rightarrow> Inr JUndefined | JNull \<Rightarrow> Inr JUndefined
                 | _ \<Rightarrow> get_prop rt found ''status'')
       (\<lambda>ready.
     bind_err (get_path rt node [''status'', ''capacity'']) (\<lambda>capacity.
     bind_err (get_path rt node [''status'', ''allocatable'']) (\<lambda>allocatable.
     bind_err (get_path rt node [''status'', ''nodeInfo'']) (\<lambda>nodeInfo.
     Inr (JObj
       [(''name'', name),
        (''labels'', labels),
        (''status'', JStr (if ready = JStr ''True'' then ''Ready'' else ''NotReady'')),
        (''conditions'', conditions),
        (''capacity'', capacity),
        (''allocatable'', allocatable),
        (''nodeInfo'', nodeInfo)])))))))))"

text \<open>\<^verbatim>\<open>xs.map(f)\<close> on a parsed value.\<close>

definition array_map :: "runtime \<Rightarrow> json \<Rightarrow> (json \<Rightarrow> string + json) \<Rightarrow> string + json" where
  "array_map rt xs f =
     (case xs of
        JUndefined \<Rightarrow> Inl (read_of_nullish rt JUndefined ''map'')
      | JNull \<Rightarrow> Inl (read_of_nullish rt JNull ''map'')
      | JArr cs \<Rightarrow> bind_err (map_err f cs) (\<lambda>ys. Inr (JArr ys))
      | _ \<Rightarrow> Inl (not_a_function rt ''map''))"

text \<open>An object literal whose values are properties of one value \<open>c\<close>.\<close>

definition pick :: "runtime \<Rightarrow> string list \<Rightarrow> json \<Rightarrow> string + json" where
  "pick rt ps c =
     bind_err (map_err (\<lambda>p. bind_err (get_prop rt c p) (\<lambda>v. Inr (p, v))) ps)
       (\<lambda>kvs. Inr (JObj kvs))"

text \<open>Lines 827-841, the branch \<^verbatim>\<open>k8s_get_pod\<close>.\<close>

definition pod_view :: "runtime \<Rightarrow> json \<Rightarrow> string + json" where
  "pod_view rt pod =
     bind_err (get_path rt pod [''metadata'', ''name'']) (\<lambda>name.
     bind_err (get_path rt pod [''metadata'', ''namespace'']) (\<lambda>namespace.
     bind_err (get_path rt pod [''status'', ''phase'']) (\<lambda>phase.
     bind_err (get_path rt pod [''status'', ''podIP'']) (\<lambda>podIP.
     bind_err (get_path rt pod [''spec'', ''nodeName'']) (\<lambda>nodeName.
     bind_err (get_path rt pod [''spec'', ''containers'']) (\<lambda>cs.
     bind_err (array_map rt cs (pick rt [''name'', ''image'', ''ports''])) (\<lambda>containers.
     bind_err (get_path rt pod [''status'', ''conditions'']) (\<lambda>conditions.
     bind_err (get_path rt pod [''status'', ''containerStatuses'']) (\<lambda>containerStatuses.
     Inr (JObj
       [(''name'', name),
        (''namespace'', namespace),
        (''status'', phase),
        (''podIP'', podIP),
        (''nodeName'', nodeName),
        (''containers'', containers),
        (''conditions'', conditions),
        (''containerStatuses'', containerStatuses)]))))))))))"

text \<open>Lines 893-906, the branch \<^verbatim>\<open>k8s_get_deployment\<close>.\<close>

definition deployment_view :: "runtime \<Rightarrow> json \<Rightarrow> string + json" where
  "deployment_view rt dep =
     bind_err (get_path rt dep [''metadata'', ''name'']) (\<lambda>name.
     bind_err (get_path rt dep [''metadata'', ''namespace'']) (\<lambda>namespace.
     bind_err (get_path rt dep [''spec'', ''replicas'']) (\<lambda>replicas.
     bind_err (get_path rt dep [''status'', ''availableReplicas'']) (\<lambda>availableReplicas.
     bind_err (get_path rt dep [''status'', ''readyReplicas'']) (\<lambda>readyReplicas.
     bind_err (get_path rt dep [''spec'', ''strategy'']) (\<lambda>strategy.
     bind_err (get_path rt dep [''spec'', ''template'', ''spec'', ''containers'']) (\<lambda>cs.
     bind_err (array_map rt cs (pick rt [''name'', ''image''])) (\<lambda>containers.
     bind_err (get_path rt dep [''status'', ''conditions'']) (\<lambda>conditions.
     Inr (JObj
       [(''name'', name),
        (''namespace'', namespace),
        (''replicas'', replicas),
        (''availableReplicas'', availableReplicas),
        (''readyReplicas'', readyReplicas),
        (''strategy'', strategy),
        (''containers'', containers),
        (''conditions'', conditions)]))))))))))"

text \<open>Lines 957-966, the branch \<^verbatim>\<open>k8s_get_service\<close>.\<close>

definition service_view :: "runtime \<Rightarrow> json \<Rightarrow> string + json" where
  "service_view rt svc =
     bind_err (get_path rt svc [''metadata'', ''name'']) (\<lambda>name.
     bind_err (get_path rt svc [''metadata'', ''namespace'']) (\<lambda>namespace.
     bind_err (get_path rt svc [''spec'', ''type'']) (\<lambda>type.
     bind_err (get_path rt svc [''spec'', ''clusterIP'']) (\<lambda>clusterIP.
     bind_err (get_path rt svc [''spec'', ''externalIPs'']) (\<lambda>externalIPs.
     bind_err (get_path rt svc [''spec'', ''ports'']) (\<lambda>ports.
     bind_err (get_path rt svc [''spec'', ''selector'']) (\<lambda>selector.
     Inr (JObj
       [(''name'', name),
        (''namespace'', namespace),
        (''type'', type),
        (''clusterIP'', clusterIP),
        (''externalIPs'', externalIPs),
        (''ports'', ports),
        (''selector'', selector)]))))))))"

text \<open>Lines 991-996, the branch \<^verbatim>\<open>k8s_get_configmap\<close>.\<close>

definition configmap_view :: "runtime \<Rightarrow> json \<Rightarrow> string + json" where
  "configmap_view rt cm =
     bind_err (get_path rt cm [''metadata'', ''name'']) (\<lambda>name.
     bind_err (get_path rt cm [''metadata'', ''namespace'']) (\<lambda>namespace.
     bind_err (get_prop rt cm ''data'') (\<lambda>data.
     Inr (JObj [(''name'', name), (''namespace'', namespace), (''data'', data)]))))"

text \<open>Lines 1032-1045, the branch \<^verbatim>\<open>k8s_get_secret\<close>.\<close>

definition decode_value :: "runtime \<Rightarrow> json \<Rightarrow> string + string" where
  "decode_value rt v = (case v of JStr s \<Rightarrow> Inr (base64_utf8 rt s) | _ \<Rightarrow> Buffer_from_other rt v)"

text \<open>The loop of lines 1041-1043 over the entries, with \<open>decodedData\<close> as accumulator.\<close>

fun decode_entries ::
  "runtime \<Rightarrow> (string \<times> json) list \<Rightarrow> (string \<times> json) list \<Rightarrow> string + (string \<times> json) list"
where
  "decode_entries rt decodedData [] = Inr decodedData"
| "decode_entries rt decodedData ((key, v) # es) =
     bind_err (decode_value rt v) (\<lambda>s. decode_entries rt (set_prop decodedData key s) es)"

definition secret_view :: "runtime \<Rightarrow> bool option \<Rightarrow> json \<Rightarrow> string + json" where
  "secret_view rt decode secret =
     bind_err (get_path rt secret [''metadata'', ''name'']) (\<lambda>name.
     bind_err (get_path rt secret [''metadata'', ''namespace'']) (\<lambda>namespace.
     bind_err (get_prop rt secret ''type'') (\<lambda>type.
     bind_err (get_prop rt secret ''data'') (\<lambda>data.
     (let response =
            [(''name'', name),
             (''namespace'', namespace),
             (''type'', type),
             (''keys'', JArr (map JStr (Object_keys (if truthy data then data else JObj []))))]
      in if truthy_bool decode \<and> truthy data
         then bind_err (decode_entries rt [] (Object_entries data))
                (\<lambda>decodedData. Inr (JObj (response @ [(''decodedData'', JObj decodedData)])))
         else Inr (JObj response))))))"

subsection \<open>The dispatcher\<close>

text \<open>
  \<open>handleTool\<close> returns the calls of \<^verbatim>\<open>spawn\<close> it has made, in order, and the state of
  its promise: resolved with the text, rejected with the message of the error thrown, or
  pending when the process never closes.
\<close>

definition await_runKubectl ::
  "env \<Rightarrow> world \<Rightarrow> string list \<Rightarrow> string option \<Rightarrow> (KubectlResult \<Rightarrow> string promise)
   \<Rightarrow> invocation list \<times> string promise"
where
  "await_runKubectl e w kubectlArgs i k =
     ([spawned e kubectlArgs i],
      case runKubectl e w kubectlArgs i of
        Pending \<Rightarrow> Pending
      | Rejected m \<Rightarrow> Rejected m
      | Resolved result \<Rightarrow> k result)"

definition of_sum :: "string + string \<Rightarrow> string promise" where
  "of_sum x = (case x of Inl m \<Rightarrow> Rejected m | Inr s \<Rightarrow> Resolved s)"

text \<open>\<^verbatim>\<open>JSON.stringify(view(JSON.parse(result.stdout)), null, 2)\<close>.\<close>

definition reshape :: "runtime \<Rightarrow> (json \<Rightarrow> string + json) \<Rightarrow> string \<Rightarrow> string promise" where
  "reshape rt view out =
     of_sum (bind_err (JSON_parse rt out) (\<lambda>v. bind_err (view v) (\<lambda>j. Inr (JSON_stringify rt j))))"

definition quoted :: "string \<Rightarrow> string" where
  "quoted s = [squote] @ s @ [squote]"

text \<open>\<^verbatim>\<open>if (args.x) kubectlArgs.push(flag, args.x)\<close> for a string argument.\<close>

definition push_str :: "string \<Rightarrow> string option \<Rightarrow> string list" where
  "push_str flag x = (case x of None \<Rightarrow> [] | Some s \<Rightarrow> if s = [] then [] else [flag, s])"

text \<open>The \<^verbatim>\<open>if (args.all_namespaces) ... else ...\<close> of the list branches.\<close>

definition scope :: "tool_args \<Rightarrow> string \<Rightarrow> string list" where
  "scope args ns =
     (if truthy_bool (arg_all_namespaces args) then [''--all-namespaces''] else [''-n'', ns])"

text \<open>\<^verbatim>\<open>if (args.force) kubectlArgs.push("--force", "--grace-period=0")\<close>.\<close>

definition force_flags :: "tool_args \<Rightarrow> string list" where
  "force_flags args = (if truthy_bool (arg_force args) then [''--force'', ''--grace-period=0''] else [])"

text \<open>The loop pushing one \<^verbatim>\<open>--from-literal\<close> per entry of \<^verbatim>\<open>args.data\<close>.\<close>

definition from_literals :: "(string \<times> string) list \<Rightarrow> string list" where
  "from_literals data = map (\<lambda>(key, v). ''--from-literal='' @ key @ ''='' @ v) data"

text \<open>The labels of the \<^verbatim>\<open>case\<close> clauses of the \<^verbatim>\<open>switch\<close>, in their order.\<close>

definition case_labels :: "string list" where
  "case_labels =
    [''k8s_get_cluster_info'', ''k8s_list_nodes'', ''k8s_get_node'', ''k8s_describe_node'',
     ''k8s_list_namespaces'', ''k8s_create_namespace'', ''k8s_delete_namespace'',
     ''k8s_list_pods'', ''k8s_get_pod'', ''k8s_describe_pod'', ''k8s_get_pod_logs'',
     ''k8s_delete_pod'', ''k8s_exec_pod'', ''k8s_list_deployments'', ''k8s_get_deployment'',
     ''k8s_describe_deployment'', ''k8s_scale_deployment'', ''k8s_restart_deployment'',
     ''k8s_update_deployment_image'', ''k8s_list_services'', ''k8s_get_service'',
     ''k8s_describe_service'', ''k8s_list_configmaps'', ''k8s_get_configmap'',
     ''k8s_create_configmap'', ''k8s_delete_configmap'', ''k8s_list_secrets'',
     ''k8s_get_secret'', ''k8s_create_secret'', ''k8s_delete_secret'',
     ''k8s_list_statefulsets'', ''k8s_get_statefulset'', ''k8s_scale_statefulset'',
     ''k8s_list_daemonsets'', ''k8s_get_daemonset'', ''k8s_list_ingresses'',
     ''k8s_get_ingress'', ''k8s_apply_manifest'', ''k8s_delete_resource'', ''k8s_get_events'',
     ''k8s_get_resource_yaml'', ''k8s_get_all'', ''k8s_rollout_status'',
     ''k8s_rollout_history'', ''k8s_rollout_undo'', ''k8s_top_nodes'', ''k8s_top_pods'',
     ''k8s_get_contexts'', ''k8s_current_context'']"

text \<open>
  The \<^verbatim>\<open>switch (name)\<close> of lines 754-1232 compares \<open>name\<close> with each label in turn,
  with \<open>ns\<close> already computed. Every branch but the last calls \<open>runKubectl\<close> once and
  awaits it.
\<close>

definition dispatch ::
  "runtime \<Rightarrow> env \<Rightarrow> world \<Rightarrow> string \<Rightarrow> string \<Rightarrow> tool_args
   \<Rightarrow> invocation list \<times> string promise"
where
  "dispatch rt e w ns name args =
    (if name = ''k8s_get_cluster_info'' then
       await_runKubectl e w
         ([''cluster-info'']) None
         (\<lambda>result.
           if code result \<noteq> 0 then Rejected (stderr result)
           else Resolved (stdout result))
     else if name = ''k8s_list_nodes'' then
       await_runKubectl e w
         ([''get'', ''nodes'', ''-o'', ''wide'']) None
         (\<lambda>result.
           if code result \<noteq> 0 then Rejected (stderr result)
           else Resolved (stdout result))
     else if name = ''k8s_get_node'' then
       await_runKubectl e w
         ([''get'', ''node'', arg_name args, ''-o'', ''json'']) None
         (\<lambda>result.
           if code result \<noteq> 0 then Rejected (stderr result)
           else reshape rt (node_view rt) (stdout result))
     else if name = ''k8s_describe_node'' then
       await_runKubectl e w
         ([''describe'', ''node'', arg_name args]) None
         (\<lambda>result.
           if code result \<noteq> 0 then Rejected (stderr result)
           else Resolved (stdout result))
     else if name = ''k8s_list_namespaces'' then
       await_runKubectl e w
         ([''get'', ''namespaces'', ''-o'', ''wide'']) None
         (\<lambda>result.
           if code result \<noteq> 0 then Rejected (stderr result)
           else Resolved (stdout result))
     else if name = ''k8s_create_namespace'' then
       await_runKubectl e w
         ([''create'', ''namespace'', arg_name args]) None
         (\<lambda>result.
           if code result \<noteq> 0 then Rejected (stderr result)
           else Resolved (''Namespace '' @ quoted (arg_name args) @ '' created successfully''))
     else if name = ''k8s_delete_namespace'' then
       await_runKubectl e w
         ([''delete'', ''namespace'', arg_name args]) None
         (\<lambda>result.
           if code result \<noteq> 0 then Rejected (stderr result)
           else Resolved (''Namespace '' @ quoted (arg_name args) @ '' deleted''))
     else if name = ''k8s_list_pods'' then
       await_runKubectl e w
         ([''get'', ''pods'', ''-o'', ''wide''] @ scope args ns
          @ push_str ''-l'' (arg_label_selector args)) None
         (\<lambda>result.
           if code result \<noteq> 0 then Rejected (stderr result)
           else Resolved (stdout result))
     else if name = ''k8s_get_pod'' then
       await_runKubectl e w
         ([''get'', ''pod'', arg_name args, ''-n'', ns, ''-o'', ''json'']) None
         (\<lambda>result.
           if code result \<noteq> 0 then Rejected (stderr result)
           else reshape rt (pod_view rt) (stdout result))
     else if name = ''k8s_describe_pod'' then
       await_runKubectl e w
         ([''describe'', ''pod'', arg_name args, ''-n'', ns]) None
         (\<lambda>result.
           if code result \<noteq> 0 then Rejected (stderr result)
           else Resolved (stdout result))
     else if name = ''k8s_get_pod_logs'' then
       await_runKubectl e w
         ([''logs'', arg_name args, ''-n'', ns]
          @ push_str ''-c'' (arg_container args)
          @ (if truthy_bool (arg_previous args) then [''--previous''] else [])
          @ (if truthy_num (arg_tail args) then [''--tail'', tmpl_num (arg_tail args)] else [])
          @ push_str ''--since'' (arg_since args)) None
         (\<lambda>result.
           if code result \<noteq> 0 then Rejected (stderr result)
           else Resolved (if stdout result = [] then ''No logs available'' else stdout result))
     else if name = ''k8s_delete_pod'' then
       await_runKubectl e w
         ([''delete'', ''pod'', arg_name args, ''-n'', ns] @ force_flags args) None
         (\<lambda>result.
           if code result \<noteq> 0 then Rejected (stderr result)
           else Resolved (''Pod '' @ quoted (arg_name args) @ '' deleted from namespace '' @ quoted ns))
     else if name = ''k8s_exec_pod'' then
       await_runKubectl e w
         ([''exec'', arg_name args, ''-n'', ns]
          @ push_str ''-c'' (arg_container args)
          @ [''--''] @ split (arg_command args)) None
         (\<lambda>result.
           Resolved (stdout result @ stderr result))
     else if name = ''k8s_list_deployments'' then
       await_runKubectl e w
         ([''get'', ''deployments'', ''-o'', ''wide''] @ scope args ns) None
         (\<lambda>result.
           if code result \<noteq> 0 then Rejected (stderr result)
           else Resolved (stdout result))
     else if name = ''k8s_get_deployment'' then
       await_runKubectl e w
         ([''get'', ''deployment'', arg_name args, ''-n'', ns, ''-o'', ''json'']) None
         (\<lambda>result.
           if code result \<noteq> 0 then Rejected (stderr result)
           else reshape rt (deployment_view rt) (stdout result))
     else if name = ''k8s_describe_deployment'' then
       await_runKubectl e w
         ([''describe'', ''deployment'', arg_name args, ''-n'', ns]) None
         (\<lambda>result.
           if code result \<noteq> 0 then Rejected (stderr result)
           else Resolved (stdout result))
     else if name = ''k8s_scale_deployment'' then
       await_runKubectl e w
         ([''scale'', ''deployment'', arg_name args, ''-n'', ns, ''--replicas='' @ tmpl_num (arg_replicas args)]) None
         (\<lambda>result.
           if code result \<noteq> 0 then Rejected (stderr result)
           else Resolved (''Deployment '' @ quoted (arg_name args) @ '' scaled to '' @ tmpl_num (arg_replicas args) @ '' replicas''))
     else if name = ''k8s_restart_deployment'' then
       await_runKubectl e w
         ([''rollout'', ''restart'', ''deployment'', arg_name args, ''-n'', ns]) None
         (\<lambda>result.
           if code result \<noteq> 0 then Rejected (stderr result)
           else Resolved (''Deployment '' @ quoted (arg_name args) @ '' restarted''))
     else if name = ''k8s_update_deployment_image'' then
       await_runKubectl e w
         ([''set'', ''image'', ''deployment/'' @ arg_name args, tmpl (arg_container args) @ ''='' @ tmpl (arg_image args), ''-n'', ns]) None
         (\<lambda>result.
           if code result \<noteq> 0 then Rejected (stderr result)
           else Resolved (''Deployment '' @ quoted (arg_name args) @ '' container '' @ quoted (tmpl (arg_container args)) @ '' updated to image '' @ quoted (tmpl (arg_image args))))
     else if name = ''k8s_list_services'' then
       await_runKubectl e w
         ([''get'', ''services'', ''-o'', ''wide''] @ scope args ns) None
         (\<lambda>result.
           if code result \<noteq> 0 then Rejected (stderr result)
           else Resolved (stdout result))
     else if name = ''k8s_get_service'' then
       await_runKubectl e w
         ([''get'', ''service'', arg_name args, ''-n'', ns, ''-o'', ''json'']) None
         (\<lambda>result.
           if code result \<noteq> 0 then Rejected (stderr result)
           else reshape rt (service_view rt) (stdout result))
     else if name = ''k8s_describe_service'' then
       await_runKubectl e w
         ([''describe'', ''service'', arg_name args, ''-n'', ns]) None
         (\<lambda>result.
           if code result \<noteq> 0 then Rejected (stderr result)
           else Resolved (stdout result))
     else if name = ''k8s_list_configmaps'' then
       await_runKubectl e w
         ([''get'', ''configmaps''] @ scope args ns) None
         (\<lambda>result.
           if code result \<noteq> 0 then Rejected (stderr result)
           else Resolved (stdout result))
     else if name = ''k8s_get_configmap'' then
       await_runKubectl e w
         ([''get'', ''configmap'', arg_name args, ''-n'', ns, ''-o'', ''json'']) None
         (\<lambda>result.
           if code result \<noteq> 0 then Rejected (stderr result)
           else reshape rt (configmap_view rt) (stdout result))
     else if name = ''k8s_create_configmap'' then
       await_runKubectl e w
         ([''create'', ''configmap'', arg_name args, ''-n'', ns] @ from_literals (arg_data args)) None
         (\<lambda>result.
           if code result \<noteq> 0 then Rejected (stderr result)
           else Resolved (''ConfigMap '' @ quoted (arg_name args) @ '' created in namespace '' @ quoted ns))
     else if name = ''k8s_delete_configmap'' then
       await_runKubectl e w
         ([''delete'', ''configmap'', arg_name args, ''-n'', ns]) None
         (\<lambda>result.
           if code result \<noteq> 0 then Rejected (stderr result)
           else Resolved (''ConfigMap '' @ quoted (arg_name args) @ '' deleted from namespace '' @ quoted ns))
     else if name = ''k8s_list_secrets'' then
       await_runKubectl e w
         ([''get'', ''secrets''] @ scope args ns) None
         (\<lambda>result.
           if code result \<noteq> 0 then Rejected (stderr result)
           else Resolved (stdout result))
     else if name = ''k8s_get_secret'' then
       await_runKubectl e w
         ([''get'', ''secret'', arg_name args, ''-n'', ns, ''-o'', ''json'']) None
         (\<lambda>result.
           if code result \<noteq> 0 then Rejected (stderr result)
           else reshape rt (secret_view rt (arg_decode args)) (stdout result))
     else if name = ''k8s_create_secret'' then
       await_runKubectl e w
         ([''create'', ''secret'', or_else (arg_type args) ''generic'', arg_name args, ''-n'', ns]
          @ from_literals (arg_data args)) None
         (\<lambda>result.
           if code result \<noteq> 0 then Rejected (stderr result)
           else Resolved (''Secret '' @ quoted (arg_name args) @ '' created in namespace '' @ quoted ns))
     else if name = ''k8s_delete_secret'' then
       await_runKubectl e w
         ([''delete'', ''secret'', arg_name args, ''-n'', ns]) None
         (\<lambda>result.
           if code result \<noteq> 0 then Rejected (stderr result)
           else Resolved (''Secret '' @ quoted (arg_name args) @ '' deleted from namespace '' @ quoted ns))
     else if name = ''k8s_list_statefulsets'' then
       await_runKubectl e w
         ([''get'', ''statefulsets'', ''-o'', ''wide''] @ scope args ns) None
         (\<lambda>result.
           if code result \<noteq> 0 then Rejected (stderr result)
           else Resolved (stdout result))
     else if name = ''k8s_get_statefulset'' then
       await_runKubectl e w
         ([''get'', ''statefulset'', arg_name args, ''-n'', ns, ''-o'', ''json'']) None
         (\<lambda>result.
           if code result \<noteq> 0 then Rejected (stderr result)
           else reshape rt (Inr) (stdout result))
     else if name = ''k8s_scale_statefulset'' then
       await_runKubectl e w
         ([''scale'', ''statefulset'', arg_name args, ''-n'', ns, ''--replicas='' @ tmpl_num (arg_replicas args)]) None
         (\<lambda>result.
           if code result \<noteq> 0 then Rejected (stderr result)
           else Resolved (''StatefulSet '' @ quoted (arg_name args) @ '' scaled to '' @ tmpl_num (arg_replicas args) @ '' replicas''))
     else if name = ''k8s_list_daemonsets'' then
       await_runKubectl e w
         ([''get'', ''daemonsets'', ''-o'', ''wide''] @ scope args ns) None
         (\<lambda>result.
           if code result \<noteq> 0 then Rejected (stderr result)
           else Resolved (stdout result))
     else if name = ''k8s_get_daemonset'' then
       await_runKubectl e w
         ([''get'', ''daemonset'', arg_name args, ''-n'', ns, ''-o'', ''json'']) None
         (\<lambda>result.
           if code result \<noteq> 0 then Rejected (stderr result)
           else reshape rt (Inr) (stdout result))
     else if name = ''k8s_list_ingresses'' then
       await_runKubectl e w
         ([''get'', ''ingress'', ''-o'', ''wide''] @ scope args ns) None
         (\<lambda>result.
           if code result \<noteq> 0 then Rejected (stderr result)
           else Resolved (stdout result))
     else if name = ''k8s_get_ingress'' then
       await_runKubectl e w
         ([''get'', ''ingress'', arg_name args, ''-n'', ns, ''-o'', ''json'']) None
         (\<lambda>result.
           if code result \<noteq> 0 then Rejected (stderr result)
           else reshape rt (Inr) (stdout result))
     else if name = ''k8s_apply_manifest'' then
       await_runKubectl e w
         ([''apply'', ''-f'', ''-'']
          @ (if truthy_str (arg_namespace args) then [''-n'', ns] else [])
          @ (if truthy_bool (arg_dry_run args) then [''--dry-run=client''] else [])) (Some (arg_manifest args))
         (\<lambda>result.
           if code result \<noteq> 0 then Rejected (stderr result)
           else Resolved (stdout result @ stderr result))
     else if name = ''k8s_delete_resource'' then
       await_runKubectl e w
         ([''delete'', arg_resource_type args, arg_name args, ''-n'', ns] @ force_flags args) None
         (\<lambda>result.
           if code result \<noteq> 0 then Rejected (stderr result)
           else Resolved (arg_resource_type args @ '' '' @ quoted (arg_name args) @ '' deleted from namespace '' @ quoted ns))
     else if name = ''k8s_get_events'' then
       await_runKubectl e w
         ([''get'', ''events'', ''--sort-by=.lastTimestamp''] @ scope args ns) None
         (\<lambda>result.
           if code result \<noteq> 0 then Rejected (stderr result)
           else Resolved (stdout result))
     else if name = ''k8s_get_resource_yaml'' then
       await_runKubectl e w
         ([''get'', arg_resource_type args, arg_name args, ''-n'', ns, ''-o'', ''yaml'']) None
         (\<lambda>result.
           if code result \<noteq> 0 then Rejected (stderr result)
           else Resolved (stdout result))
     else if name = ''k8s_get_all'' then
       await_runKubectl e w
         ([''get'', ''all'', ''-n'', ns, ''-o'', ''wide'']) None
         (\<lambda>result.
           if code result \<noteq> 0 then Rejected (stderr result)
           else Resolved (stdout result))
     else if name = ''k8s_rollout_status'' then
       await_runKubectl e w
         ([''rollout'', ''status'', ''deployment'', arg_name args, ''-n'', ns]) None
         (\<lambda>result.
           if code result \<noteq> 0 then Rejected (stderr result)
           else Resolved (stdout result))
     else if name = ''k8s_rollout_history'' then
       await_runKubectl e w
         ([''rollout'', ''history'', ''deployment'', arg_name args, ''-n'', ns]) None
         (\<lambda>result.
           if code result \<noteq> 0 then Rejected (stderr result)
           else Resolved (stdout result))
     else if name = ''k8s_rollout_undo'' then
       await_runKubectl e w
         ([''rollout'', ''undo'', ''deployment'', arg_name args, ''-n'', ns]
          @ (if truthy_num (arg_revision args)
             then [''--to-revision='' @ tmpl_num (arg_revision args)] else [])) None
         (\<lambda>result.
           if code result \<noteq> 0 then Rejected (stderr result)
           else Resolved (stdout result))
     else if name = ''k8s_top_nodes'' then
       await_runKubectl e w
         ([''top'', ''nodes'']) None
         (\<lambda>result.
           if code result \<noteq> 0
           then Rejected (or_else (Some (stderr result)) ''Metrics server may not be installed'')
           else Resolved (stdout result))
     else if name = ''k8s_top_pods'' then
       await_runKubectl e w
         ([''top'', ''pods''] @ scope args ns) None
         (\<lambda>result.
           if code result \<noteq> 0
           then Rejected (or_else (Some (stderr result)) ''Metrics server may not be installed'')
           else Resolved (stdout result))
     else if name = ''k8s_get_contexts'' then
       await_runKubectl e w
         ([''config'', ''get-contexts'']) None
         (\<lambda>result.
           if code result \<noteq> 0 then Rejected (stderr result)
           else Resolved (stdout result))
     else if name = ''k8s_current_context'' then
       await_runKubectl e w
         ([''config'', ''current-context'']) None
         (\<lambda>result.
           if code result \<noteq> 0 then Rejected (stderr result)
           else Resolved (trim (stdout result)))
     else ([], Rejected (''Unknown tool: '' @ name)))"

text \<open>Line 752 computes \<open>ns\<close> once; the \<^verbatim>\<open>switch\<close> follows.\<close>

definition handleTool ::
  "runtime \<Rightarrow> env \<Rightarrow> world \<Rightarrow> string \<Rightarrow> tool_args \<Rightarrow> invocation list \<times> string promise"
where
  "handleTool rt e w name args =
     (let ns = getNamespace e (arg_namespace args) in dispatch rt e w ns name args)"

subsection \<open>The call handler of the server (lines 1254-1267)\<close>

text \<open>
  The reply to a tool call: the text, and whether \<^verbatim>\<open>isError\<close> is set. There is no reply
  while the promise of \<open>handleTool\<close> is pending.
\<close>

record response =
  content_text :: string
  isError :: bool

definition callTool :: "runtime \<Rightarrow> env \<Rightarrow> world \<Rightarrow> string \<Rightarrow> tool_args \<Rightarrow> response option" where
  "callTool rt e w name args =
     (case snd (handleTool rt e w name args) of
        Pending \<Rightarrow> None
      | Resolved result \<Rightarrow> Some \<lparr>content_text = result, isError = False\<rparr>
      | Rejected message \<Rightarrow> Some \<lparr>content_text = ''Error: '' @ message, isError = True\<rparr>)"

section \<open>Concrete configurations, processes and calls\<close>

definition env_local :: env where
  "env_local =
     \<lparr>env_KUBECONFIG = Some ''/k/config'', env_K8S_CONTEXT = None,
      env_K8S_DEFAULT_NAMESPACE = None, env_KUBECTL_PATH = None,
      env_K8S_SSH_HOST = None, env_K8S_SSH_USER = None,
      env_K8S_SSH_PASSWORD = None, env_K8S_SSH_KEY = None,
      platform_win32 = False\<rparr>"

definition env_remote :: env where
  "env_remote =
     \<lparr>env_KUBECONFIG = None, env_K8S_CONTEXT = None,
      env_K8S_DEFAULT_NAMESPACE = Some ''apps'', env_KUBECTL_PATH = None,
      env_K8S_SSH_HOST = Some ''10.0.0.7'', env_K8S_SSH_USER = Some ''ops'',
      env_K8S_SSH_PASSWORD = None, env_K8S_SSH_KEY = Some ''/k/id'',
      platform_win32 = False\<rparr>"

text \<open>A process that prints on both streams and exits with status 1.\<close>

definition world_fail :: world where
  "world_fail c a i = Child [StdoutData ''out'', StderrData ''boom'', Close (Some 1)]"

text \<open>A process that exits with status 1 and prints nothing.\<close>

definition world_silent :: world where
  "world_silent c a i = Child [Close (Some 1)]"

text \<open>A process that prints a text and exits with status 0.\<close>

definition world_ok :: world where
  "world_ok c a i = Child [StdoutData ''{}'', Close (Some 0)]"

text \<open>A process that cannot be started.\<close>

definition world_enoent :: world where
  "world_enoent c a i = Child [ErrorEvent ''spawn ENOENT'', Close (Some (- 2))]"

text \<open>A process that prints and never ends.\<close>

definition world_hang :: world where
  "world_hang c a i = Child [StdoutData ''waiting'']"

text \<open>A \<^verbatim>\<open>spawn\<close> that refuses a command or an argument with a NUL character.\<close>

definition world_nul :: world where
  "world_nul c a i =
     (if CHR 0x00 \<in> set (concat (c # a)) then Throws ''ERR_INVALID_ARG_VALUE''
      else Child [Close (Some 0)])"

text \<open>A runtime whose parser rejects every text.\<close>

definition rt_none :: runtime where
  "rt_none =
     \<lparr>JSON_parse = (\<lambda>t. Inl ''Unexpected token''),
      JSON_stringify = (\<lambda>j. []),
      base64_utf8 = (\<lambda>s. s),
      Buffer_from_other = (\<lambda>j. Inl ''ERR_INVALID_ARG_TYPE''),
      read_of_nullish = (\<lambda>j p. ''Cannot read properties''),
      not_a_function = (\<lambda>p. ''not a function'')\<rparr>"

text \<open>A call with a pod name and a command and nothing else.\<close>

definition args_min :: tool_args where
  "args_min =
     \<lparr>arg_namespace = None, arg_name = ''web'', arg_all_namespaces = None,
      arg_label_selector = None, arg_container = None, arg_previous = None,
      arg_tail = None, arg_since = None, arg_force = None,
      arg_command = ''sh -c '' @ [dquote] @ ''echo hi'' @ [dquote],
      arg_replicas = Some 3, arg_image = None, arg_data = [], arg_decode = Some True,
      arg_type = None, arg_manifest = [], arg_dry_run = None,
      arg_resource_type = ''pod'', arg_revision = None\<rparr>"

text \<open>A secret whose only data key is \<^verbatim>\<open>__proto__\<close>, as \<^verbatim>\<open>JSON.parse\<close> returns it.\<close>

definition secret_proto :: json where
  "secret_proto =
     JObj [(''metadata'', JObj [(''name'', JStr ''s''), (''namespace'', JStr ''default'')]),
           (''type'', JStr ''Opaque''),
           (''data'', JObj [(''__proto__'', JStr ''aGk='')])]"

text \<open>A secret with two ordinary data keys.\<close>

definition secret_two :: json where
  "secret_two =
     JObj [(''metadata'', JObj [(''name'', JStr ''s''), (''namespace'', JStr ''default'')]),
           (''type'', JStr ''Opaque''),
           (''data'', JObj [(''user'', JStr ''YQ==''), (''pass'', JStr ''Yg=='')])]"

section \<open>Properties of the executor\<close>

lemma default_ns_not_empty: "K8S_DEFAULT_NAMESPACE e \<noteq> []"
  by (simp add: K8S_DEFAULT_NAMESPACE_def or_else_def split: option.splits)

subsection \<open>Local mode\<close>

text \<open>
  Claim C7. In local mode (no remote host configured) the executor starts the configured
  client binary itself, and its argument list is the caller's list with the
  configuration-file flag in front exactly when a configuration file is set, and the
  context flag in front of that exactly when a context is set.
\<close>

theorem local_mode_invocation:
  "K8S_SSH_HOST e = [] \<Longrightarrow>
   spawned e args i =
     \<lparr>inv_command = KUBECTL_PATH e,
      inv_args = (if K8S_CONTEXT e \<noteq> [] then [''--context='' @ K8S_CONTEXT e] else [])
               @ (if KUBECONFIG e \<noteq> [] then [''--kubeconfig='' @ KUBECONFIG e] else [])
               @ args,
      inv_stdin = stdin_written i\<rparr>"
  by (simp add: spawned_def spawn_invocation_def Let_def)

theorem local_mode_invocation_witness:
  "K8S_SSH_HOST env_local = [] \<and>
   spawned env_local [''get'', ''pods''] None =
     \<lparr>inv_command = ''kubectl'',
      inv_args = [''--kubeconfig=/k/config'', ''get'', ''pods''],
      inv_stdin = None\<rparr>"
proof -
  have h: "K8S_SSH_HOST env_local = []"
    by (simp add: K8S_SSH_HOST_def env_local_def or_else_def)
  show ?thesis
    using h local_mode_invocation [OF h, of "[''get'', ''pods'']" None]
    by (simp add: env_local_def K8S_CONTEXT_def KUBECONFIG_def KUBECTL_PATH_def or_else_def
        stdin_written_def)
qed

subsection \<open>Remote mode\<close>

lemma remote_last_arg:
  "K8S_SSH_HOST e \<noteq> [] \<Longrightarrow> last (snd (spawn_invocation e args)) = kubectlCmd args"
  by (simp add: spawn_invocation_def)

lemma preceded_escape_dquotes: "preceded p (escape_dquotes arg)"
  by (induction arg arbitrary: p) (simp_all add: escape_dquotes_def)

lemma escape_dquotes_head: "escape_dquotes arg = d # ds \<Longrightarrow> d \<noteq> dquote"
  by (cases arg) (auto simp: escape_dquotes_def split: if_splits)

lemma unescape_escape_dquotes: "unescape_dquotes (escape_dquotes arg) = arg"
proof (induction arg)
  case Nil
  then show ?case by (simp add: escape_dquotes_def)
next
  case (Cons c cs)
  have e: "escape_dquotes (c # cs) =
             (if c = dquote then backslash # dquote # escape_dquotes cs
              else c # escape_dquotes cs)"
    by (simp add: escape_dquotes_def)
  show ?case
  proof (cases "c = dquote")
    case True
    then show ?thesis using Cons.IH e by simp
  next
    case False
    show ?thesis
    proof (cases "escape_dquotes cs")
      case Nil
      then show ?thesis using Cons.IH e False by simp
    next
      case (Cons d ds)
      then have "d \<noteq> dquote" by (rule escape_dquotes_head)
      then show ?thesis using Cons.IH e False Cons by simp
    qed
  qed
qed

text \<open>
  What remote mode does by the test of line 39: the last argument of the remote-shell
  client is \<^verbatim>\<open>sudo kubectl\<close>, a space, and the arguments joined by single spaces; an
  argument with a single quote or a space is put between double quotes, with a backslash
  before each of its double quotes and nothing else changed; an argument with neither
  is inserted as it is.
\<close>

lemma remote_mode_command:
  "K8S_SSH_HOST e \<noteq> [] \<Longrightarrow>
   last (inv_args (spawned e args i)) = ''sudo kubectl '' @ join '' '' (map escapeArg args) \<and>
   (\<forall>arg \<in> set args.
      (squote \<in> set arg \<or> CHR '' '' \<in> set arg \<longrightarrow>
         escapeArg arg = [dquote] @ escape_dquotes arg @ [dquote] \<and>
         preceded dquote (escape_dquotes arg) \<and>
         unescape_dquotes (escape_dquotes arg) = arg) \<and>
      (squote \<notin> set arg \<and> CHR '' '' \<notin> set arg \<longrightarrow> escapeArg arg = arg))"
  by (simp add: spawned_def remote_last_arg kubectlCmd_def escapeArg_def
      preceded_escape_dquotes unescape_escape_dquotes)

text \<open>
  Claim C2, at the call \<^verbatim>\<open>k8s_describe_node\<close> with the name \<^verbatim>\<open>a"b\<close> in remote mode. The
  claim asks that an argument with a quote be quoted or escaped in the command string.
  This one has a double quote, and it reaches the command string as it is, with no quotes around it and no backslash
  before its double quote: the test of line 39 looks for a single quote or a space
  only, so the escaping of line 40 is never reached.
\<close>

theorem remote_mode_dquote_unescaped:
  "K8S_SSH_HOST env_remote \<noteq> [] \<and>
   dquote \<in> set [CHR ''a'', dquote, CHR ''b''] \<and>
   escapeArg [CHR ''a'', dquote, CHR ''b''] = [CHR ''a'', dquote, CHR ''b''] \<and>
   fst (handleTool rt_none env_remote world_fail ''k8s_describe_node''
          (args_min\<lparr>arg_name := [CHR ''a'', dquote, CHR ''b'']\<rparr>)) =
     [spawned env_remote [''describe'', ''node'', [CHR ''a'', dquote, CHR ''b'']] None] \<and>
   last (inv_args
           (spawned env_remote [''describe'', ''node'', [CHR ''a'', dquote, CHR ''b'']] None)) =
     ''sudo kubectl describe node '' @ [CHR ''a'', dquote, CHR ''b'']"
proof -
  have a: "fst (handleTool rt_none env_remote world_fail ''k8s_describe_node''
          (args_min\<lparr>arg_name := [CHR ''a'', dquote, CHR ''b'']\<rparr>)) =
     [spawned env_remote [''describe'', ''node'', [CHR ''a'', dquote, CHR ''b'']] None]"
    by (simp add: handleTool_def dispatch_def await_runKubectl_def)
  show ?thesis
    unfolding a
    by (simp add: spawned_def spawn_invocation_def env_remote_def K8S_SSH_HOST_def
        K8S_SSH_KEY_def or_else_def kubectlCmd_def escapeArg_def)
qed

subsection \<open>The promise of the executor\<close>

lemma listen_not_rejected: "listen out err evs \<noteq> Rejected x"
  by (induction out err evs rule: listen.induct) simp_all

lemma listen_resolves: "(\<exists>r. listen out err evs = Resolved r) = (\<exists>ev \<in> set evs. \<not> is_data ev)"
  by (induction out err evs rule: listen.induct) simp_all

lemma listen_pending: "(listen out err evs = Pending) = (\<forall>ev \<in> set evs. is_data ev)"
  by (induction out err evs rule: listen.induct) simp_all

lemma listen_error:
  "\<forall>ev \<in> set pre. is_data ev \<Longrightarrow>
   listen out err (pre @ ErrorEvent m # rest) = Resolved \<lparr>stdout = [], stderr = m, code = 1\<rparr>"
  by (induction out err pre rule: listen.induct) simp_all

text \<open>
  Claim C8, as stated, at two calls. In the first an argument has a NUL character,
  \<^verbatim>\<open>spawn\<close> throws inside the executor and the promise is rejected. In the second
  the process never emits \<open>close\<close> or \<open>error\<close> and the promise stays pending.
\<close>

theorem runKubectl_rejects_counterexample:
  "runKubectl env_local world_nul [''get'', ''pod'', [CHR ''a'', CHR 0x00]] None =
     Rejected ''ERR_INVALID_ARG_VALUE'' \<and>
   runKubectl env_local world_hang [''get'', ''pods''] None = Pending"
  by (simp add: runKubectl_def spawn_call_def spawned_def spawn_invocation_def Let_def
      world_nul_def world_hang_def env_local_def K8S_SSH_HOST_def KUBECONFIG_def
      K8S_CONTEXT_def KUBECTL_PATH_def or_else_def)

text \<open>
  Claim C8, amended. For every invocation of the executor in which the call of \<^verbatim>\<open>spawn\<close>
  returns a child with its streams: the promise is not rejected; it is resolved exactly
  when the process has emitted \<open>close\<close> or \<open>error\<close>, and pending as long as it has
  emitted neither; and when the first of the two is \<open>error\<close> (the process could not be
  started), the promise is resolved with an empty standard output, the message of the
  error as standard error, and exit code 1.
\<close>

theorem runKubectl_child_resolves:
  "spawn_call e w args i = Child evs \<Longrightarrow>
   runKubectl e w args i \<noteq> Rejected x \<and>
   ((\<exists>r. runKubectl e w args i = Resolved r) = (\<exists>ev \<in> set evs. \<not> is_data ev)) \<and>
   ((runKubectl e w args i = Pending) = (\<forall>ev \<in> set evs. is_data ev)) \<and>
   (evs = pre @ ErrorEvent m # rest \<and> (\<forall>ev \<in> set pre. is_data ev) \<longrightarrow>
      runKubectl e w args i = Resolved \<lparr>stdout = [], stderr = m, code = 1\<rparr>)"
  by (simp add: runKubectl_def listen_not_rejected listen_resolves listen_pending listen_error)

theorem runKubectl_child_resolves_witness:
  "spawn_call env_local world_enoent [''get'', ''pods''] None =
     Child ([] @ ErrorEvent ''spawn ENOENT'' # [Close (Some (- 2))]) \<and>
   runKubectl env_local world_enoent [''get'', ''pods''] None =
     Resolved \<lparr>stdout = [], stderr = ''spawn ENOENT'', code = 1\<rparr>"
proof -
  have h: "spawn_call env_local world_enoent [''get'', ''pods''] None =
             Child ([] @ ErrorEvent ''spawn ENOENT'' # [Close (Some (- 2))])"
    by (simp add: spawn_call_def world_enoent_def Let_def)
  show ?thesis
    using h runKubectl_child_resolves [OF h, of "''x''" "[]" "''spawn ENOENT''"
        "[Close (Some (- 2))]"]
    by simp
qed

section \<open>Properties of the dispatcher\<close>

lemma fst_await_runKubectl [simp]: "fst (await_runKubectl e w kargs i k) = [spawned e kargs i]"
  by (simp add: await_runKubectl_def)

subsection \<open>Splitting the command of \<^verbatim>\<open>k8s_exec_pod\<close>\<close>

lemma split_acc_not_Nil: "split_acc d cur s \<noteq> []"
  by (induction s arbitrary: cur) simp_all

lemma join_Cons: "join sep (x # ys) = (if ys = [] then x else x @ sep @ join sep ys)"
  by (cases ys) simp_all

lemma join_split_acc: "join [d] (split_acc d cur s) = cur @ s"
  by (induction s arbitrary: cur) (simp_all add: join_Cons split_acc_not_Nil)

lemma split_acc_tokens: "d \<notin> set cur \<Longrightarrow> \<forall>t \<in> set (split_acc d cur s). d \<notin> set t"
proof (induction s arbitrary: cur)
  case Nil
  then show ?case by simp
next
  case (Cons c cs)
  have a: "\<forall>t \<in> set (split_acc d [] cs). d \<notin> set t"
    using Cons.IH [of "[]"] by simp
  have b: "c \<noteq> d \<Longrightarrow> \<forall>t \<in> set (split_acc d (cur @ [c]) cs). d \<notin> set t"
    using Cons.IH [of "cur @ [c]"] Cons.prems by simp
  show ?case using a b Cons.prems by simp
qed

lemma split_tokens: "\<forall>t \<in> set (split s). CHR '' '' \<notin> set t"
  using split_acc_tokens [of "CHR '' ''" "[]" s] by (simp add: split_def)

lemma length_split_acc: "length (split_acc d cur s) = Suc (count_list s d)"
  by (induction s arbitrary: cur) simp_all

lemma join_append:
  "xs \<noteq> [] \<Longrightarrow> ys \<noteq> [] \<Longrightarrow> join sep (xs @ ys) = join sep xs @ sep @ join sep ys"
  by (induction sep xs rule: join.induct) (simp_all add: join_Cons)

lemma join_before_command:
  "xs \<noteq> [] \<Longrightarrow>
   join '' '' (xs @ [''--''] @ split s) = join '' '' xs @ '' -- '' @ s"
  using join_append [of xs "[''--''] @ split s" "'' ''"]
  by (simp add: join_Cons split_def split_acc_not_Nil join_split_acc)

text \<open>
  Claim C10, as stated, at the command \<^verbatim>\<open>sh -c "echo hi"\<close> in local mode. The command is
  cut into four pieces, but the pieces are not the arguments of the process: the line
  handed to the shell has the command string in it as it was written, and the shell
  reads the quotes, so that \<^verbatim>\<open>echo hi\<close> is one argument of the client, the third after
  \<^verbatim>\<open>--\<close>.
\<close>

theorem exec_pod_shell_counterexample:
  "split (arg_command args_min) = [''sh'', ''-c'', [dquote] @ ''echo'', ''hi'' @ [dquote]] \<and>
   map shell_line (fst (handleTool rt_none env_local world_fail ''k8s_exec_pod'' args_min)) =
     [''kubectl --kubeconfig=/k/config exec web -n default -- sh -c '' @
      [dquote] @ ''echo hi'' @ [dquote]] \<and>
   sh_words (''kubectl --kubeconfig=/k/config exec web -n default -- sh -c '' @
             [dquote] @ ''echo hi'' @ [dquote]) =
     Some [''kubectl'', ''--kubeconfig=/k/config'', ''exec'', ''web'', ''-n'', ''default'',
           ''--'', ''sh'', ''-c'', ''echo hi'']"
proof -
  have a: "split (arg_command args_min) =
             [''sh'', ''-c'', [dquote] @ ''echo'', ''hi'' @ [dquote]]"
    by (simp add: args_min_def split_def)
  have b: "map shell_line
             (fst (handleTool rt_none env_local world_fail ''k8s_exec_pod'' args_min)) =
           [''kubectl --kubeconfig=/k/config exec web -n default -- sh -c '' @
            [dquote] @ ''echo hi'' @ [dquote]]"
    by (simp add: handleTool_def dispatch_def a shell_line_def spawned_def
        spawn_invocation_def Let_def getNamespace_def K8S_DEFAULT_NAMESPACE_def
        K8S_SSH_HOST_def KUBECONFIG_def K8S_CONTEXT_def KUBECTL_PATH_def env_local_def
        or_else_def push_str_def)
      (simp add: args_min_def)
  have c: "sh_words (''kubectl --kubeconfig=/k/config exec web -n default -- sh -c '' @
             [dquote] @ ''echo hi'' @ [dquote]) =
     Some [''kubectl'', ''--kubeconfig=/k/config'', ''exec'', ''web'', ''-n'', ''default'',
           ''--'', ''sh'', ''-c'', ''echo hi'']"
    by (simp add: sh_words_def sh_plain_def word_of_def)
  show ?thesis using a b c by simp
qed

text \<open>
  Claim C10, amended. The branch \<^verbatim>\<open>k8s_exec_pod\<close> makes one call of \<^verbatim>\<open>spawn\<close> whose
  argument array is \<^verbatim>\<open>exec\<close>, the pod name, \<^verbatim>\<open>-n\<close>, the namespace, the container flag
  when a container is given, \<^verbatim>\<open>--\<close>, and then the pieces of the command string cut at
  every single space: the pieces joined by single spaces are the command string again,
  no piece contains a space, and there is one piece more than there are spaces, so
  quotes play no part in the cutting. The pieces are elements of that array, not yet
  arguments of a process: the array is joined by single spaces for the shell, and in
  local mode the line ends with \<^verbatim>\<open> -- \<close> and the command string as it was written,
  whose quoting is left to the shell.
\<close>

theorem exec_pod_split:
  "fst (handleTool rt e w ''k8s_exec_pod'' args) =
     [spawned e ([''exec'', arg_name args, ''-n'', getNamespace e (arg_namespace args)]
                 @ push_str ''-c'' (arg_container args)
                 @ [''--''] @ split (arg_command args)) None] \<and>
   join '' '' (split (arg_command args)) = arg_command args \<and>
   (\<forall>t \<in> set (split (arg_command args)). CHR '' '' \<notin> set t) \<and>
   length (split (arg_command args)) = Suc (count_list (arg_command args) CHR '' '') \<and>
   (K8S_SSH_HOST e = [] \<longrightarrow>
      map shell_line (fst (handleTool rt e w ''k8s_exec_pod'' args)) =
        [join '' ''
           ([KUBECTL_PATH e]
            @ (if K8S_CONTEXT e \<noteq> [] then [''--context='' @ K8S_CONTEXT e] else [])
            @ (if KUBECONFIG e \<noteq> [] then [''--kubeconfig='' @ KUBECONFIG e] else [])
            @ [''exec'', arg_name args, ''-n'', getNamespace e (arg_namespace args)]
            @ push_str ''-c'' (arg_container args))
         @ '' -- '' @ arg_command args])"
proof -
  have a: "fst (handleTool rt e w ''k8s_exec_pod'' args) =
     [spawned e ([''exec'', arg_name args, ''-n'', getNamespace e (arg_namespace args)]
                 @ push_str ''-c'' (arg_container args)
                 @ [''--''] @ split (arg_command args)) None]"
    by (simp add: handleTool_def dispatch_def)
  have b: "join '' '' (split (arg_command args)) = arg_command args"
    "length (split (arg_command args)) = Suc (count_list (arg_command args) CHR '' '')"
    by (simp_all add: split_def join_split_acc length_split_acc)
  let ?pre = "[KUBECTL_PATH e]
         @ (if K8S_CONTEXT e \<noteq> [] then [''--context='' @ K8S_CONTEXT e] else [])
         @ (if KUBECONFIG e \<noteq> [] then [''--kubeconfig='' @ KUBECONFIG e] else [])
         @ [''exec'', arg_name args, ''-n'', getNamespace e (arg_namespace args)]
         @ push_str ''-c'' (arg_container args)"
  let ?p = "spawned e ([''exec'', arg_name args, ''-n'', getNamespace e (arg_namespace args)]
                 @ push_str ''-c'' (arg_container args)
                 @ [''--''] @ split (arg_command args)) None"
  have l: "K8S_SSH_HOST e = [] \<Longrightarrow>
           inv_command ?p # inv_args ?p = ?pre @ [''--''] @ split (arg_command args)"
    by (simp add: spawned_def spawn_invocation_def Let_def)
  have n: "?pre \<noteq> []" by simp
  have c: "K8S_SSH_HOST e = [] \<Longrightarrow>
      map shell_line (fst (handleTool rt e w ''k8s_exec_pod'' args)) =
        [join '' '' ?pre @ '' -- '' @ arg_command args]"
    unfolding a using l join_before_command [OF n, of "arg_command args"]
    by (simp add: shell_line_def del: join.simps append.simps)
  show ?thesis
    using a b c split_tokens [of "arg_command args"] by simp
qed

theorem exec_pod_split_witness:
  "K8S_SSH_HOST env_local = [] \<and>
   fst (handleTool rt_none env_local world_fail ''k8s_exec_pod'' args_min) =
     [spawned env_local
        [''exec'', ''web'', ''-n'', ''default'', ''--'',
         ''sh'', ''-c'', [dquote] @ ''echo'', ''hi'' @ [dquote]] None] \<and>
   split (arg_command args_min) = [''sh'', ''-c'', [dquote] @ ''echo'', ''hi'' @ [dquote]] \<and>
   map shell_line (fst (handleTool rt_none env_local world_fail ''k8s_exec_pod'' args_min)) =
     [''kubectl --kubeconfig=/k/config exec web -n default -- sh -c '' @
      [dquote] @ ''echo hi'' @ [dquote]]"
proof -
  have h: "K8S_SSH_HOST env_local = []"
    by (simp add: K8S_SSH_HOST_def env_local_def or_else_def)
  have v: "KUBECTL_PATH env_local = ''kubectl''" "K8S_CONTEXT env_local = []"
    "KUBECONFIG env_local = ''/k/config''"
    "getNamespace env_local (arg_namespace args_min) = ''default''"
    "arg_name args_min = ''web''" "arg_container args_min = None"
    "arg_command args_min = ''sh -c '' @ [dquote] @ ''echo hi'' @ [dquote]"
    by (simp_all add: KUBECTL_PATH_def K8S_CONTEXT_def KUBECONFIG_def getNamespace_def
        K8S_DEFAULT_NAMESPACE_def env_local_def or_else_def args_min_def)
  note t = exec_pod_split [of rt_none env_local world_fail args_min]
  have c1: "fst (handleTool rt_none env_local world_fail ''k8s_exec_pod'' args_min) =
     [spawned env_local
        [''exec'', ''web'', ''-n'', ''default'', ''--'',
         ''sh'', ''-c'', [dquote] @ ''echo'', ''hi'' @ [dquote]] None]"
    using t [THEN conjunct1] by (simp add: v push_str_def split_def)
  have c2: "split (arg_command args_min) =
              [''sh'', ''-c'', [dquote] @ ''echo'', ''hi'' @ [dquote]]"
    by (simp add: v split_def)
  have c3: "map shell_line
              (fst (handleTool rt_none env_local world_fail ''k8s_exec_pod'' args_min)) =
     [''kubectl --kubeconfig=/k/config exec web -n default -- sh -c '' @
      [dquote] @ ''echo hi'' @ [dquote]]"
    using t [THEN conjunct2, THEN conjunct2, THEN conjunct2, THEN conjunct2, THEN mp, OF h]
    by (simp add: v push_str_def)
  show ?thesis
    using h c1 c2 c3 by blast
qed

subsection \<open>Namespace scoping of \<^verbatim>\<open>k8s_list_pods\<close>\<close>

text \<open>
  Claim C6. For \<^verbatim>\<open>k8s_list_pods\<close>: with a namespace \<open>x\<close> supplied and \<^verbatim>\<open>all_namespaces\<close>
  not set, the arguments are \<^verbatim>\<open>get pods -o wide -n x\<close> and then the label selector, if
  any; with \<^verbatim>\<open>all_namespaces\<close> true they are \<^verbatim>\<open>get pods -o wide --all-namespaces\<close> and
  then the label selector, if any, so no namespace flag is built. (A namespace is not
  the empty string: an empty \<^verbatim>\<open>namespace\<close> argument counts as omitted.)
\<close>

theorem list_pods_scope:
  "(x \<noteq> [] \<and> arg_namespace args = Some x \<and> \<not> truthy_bool (arg_all_namespaces args) \<longrightarrow>
      fst (handleTool rt e w ''k8s_list_pods'' args) =
        [spawned e ([''get'', ''pods'', ''-o'', ''wide'', ''-n'', x]
                    @ push_str ''-l'' (arg_label_selector args)) None]) \<and>
   (arg_all_namespaces args = Some True \<longrightarrow>
      fst (handleTool rt e w ''k8s_list_pods'' args) =
        [spawned e ([''get'', ''pods'', ''-o'', ''wide'', ''--all-namespaces'']
                    @ push_str ''-l'' (arg_label_selector args)) None])"
  by (simp add: handleTool_def dispatch_def scope_def getNamespace_def or_else_def
      truthy_bool_def)

theorem list_pods_scope_witness:
  "fst (handleTool rt_none env_local world_fail ''k8s_list_pods''
          (args_min\<lparr>arg_namespace := Some ''x''\<rparr>)) =
     [spawned env_local [''get'', ''pods'', ''-o'', ''wide'', ''-n'', ''x''] None] \<and>
   fst (handleTool rt_none env_local world_fail ''k8s_list_pods''
          (args_min\<lparr>arg_namespace := Some ''x'', arg_all_namespaces := Some True,
                     arg_label_selector := Some ''app=nginx''\<rparr>)) =
     [spawned env_local
        [''get'', ''pods'', ''-o'', ''wide'', ''--all-namespaces'', ''-l'', ''app=nginx''] None]"
  using list_pods_scope [of "''x''" "args_min\<lparr>arg_namespace := Some ''x''\<rparr>"
      rt_none env_local world_fail]
    list_pods_scope [of "''x''"
      "args_min\<lparr>arg_namespace := Some ''x'', arg_all_namespaces := Some True,
                 arg_label_selector := Some ''app=nginx''\<rparr>"
      rt_none env_local world_fail]
  by (simp add: args_min_def truthy_bool_def push_str_def)

subsection \<open>Unknown and known tool names\<close>

text \<open>
  Claim C4. A call whose name is none of the labels of the \<^verbatim>\<open>switch\<close> starts no process
  and fails with the message \<^verbatim>\<open>Unknown tool: \<close> followed by the name; the reply of the
  server is flagged as an error and carries that message after \<^verbatim>\<open>Error: \<close>.
\<close>

theorem unknown_tool:
  "name \<notin> set case_labels \<Longrightarrow>
   handleTool rt e w name args = ([], Rejected (''Unknown tool: '' @ name)) \<and>
   callTool rt e w name args =
     Some \<lparr>content_text = ''Error: Unknown tool: '' @ name, isError = True\<rparr>"
  by (simp add: case_labels_def handleTool_def dispatch_def callTool_def)

theorem unknown_tool_witness:
  "''k8s_nope'' \<notin> set case_labels \<and>
   handleTool rt_none env_local world_fail ''k8s_nope'' args_min =
     ([], Rejected ''Unknown tool: k8s_nope'') \<and>
   callTool rt_none env_local world_fail ''k8s_nope'' args_min =
     Some \<lparr>content_text = ''Error: Unknown tool: k8s_nope'', isError = True\<rparr>"
proof -
  have h: "''k8s_nope'' \<notin> set case_labels"
    by (simp add: case_labels_def)
  show ?thesis
    using h unknown_tool [OF h, of rt_none env_local world_fail args_min] by simp
qed

lemma tools_eq_case_labels: "tools = case_labels"
  by (simp add: tools_def case_labels_def)

lemma known_tool_spawns:
  "name \<in> set case_labels \<Longrightarrow> length (fst (dispatch rt e w ns name args)) = 1"
  unfolding case_labels_def dispatch_def
  by (simp only: fst_await_runKubectl if_distrib [of fst] if_distrib [of length]) auto

lemma default_branch_iff:
  "(fst (dispatch rt e w ns name args) = []) = (name \<notin> set case_labels)"
  unfolding case_labels_def dispatch_def by (simp add: await_runKubectl_def)

text \<open>
  Claim C9. Every name of the catalogue is a label of the \<^verbatim>\<open>switch\<close>, and a call with
  such a name starts exactly one process. The last branch, the unknown-tool failure,
  starts none (\<open>default_branch_iff\<close>), so it is not the branch taken.
\<close>

theorem catalog_covered:
  "name \<in> set tools \<Longrightarrow>
   name \<in> set case_labels \<and> length (fst (handleTool rt e w name args)) = 1"
  using known_tool_spawns [of name rt e w "getNamespace e (arg_namespace args)" args]
  by (simp add: tools_eq_case_labels handleTool_def)

theorem catalog_covered_witness:
  "''k8s_top_pods'' \<in> set tools \<and> ''k8s_top_pods'' \<in> set case_labels \<and>
   length (fst (handleTool rt_none env_local world_fail ''k8s_top_pods'' args_min)) = 1"
proof -
  have h: "''k8s_top_pods'' \<in> set tools"
    by (simp add: tools_def)
  show ?thesis
    using h catalog_covered [OF h, of rt_none env_local world_fail args_min] by simp
qed

subsection \<open>The default namespace\<close>

lemma spawned_default_ns [simp]:
  "spawned (e\<lparr>env_K8S_DEFAULT_NAMESPACE := d\<rparr>) kargs i = spawned e kargs i"
  by (simp add: spawned_def spawn_invocation_def K8S_SSH_HOST_def K8S_SSH_KEY_def
      K8S_SSH_PASSWORD_def K8S_SSH_USER_def KUBECONFIG_def K8S_CONTEXT_def KUBECTL_PATH_def
      ssh_target_def)

lemma await_default_ns [simp]:
  "await_runKubectl (e\<lparr>env_K8S_DEFAULT_NAMESPACE := d\<rparr>) w kargs i k =
   await_runKubectl e w kargs i k"
  by (simp add: await_runKubectl_def runKubectl_def spawn_call_def)


lemma dispatch_namespace_arg:
  "name \<noteq> ''k8s_apply_manifest'' \<Longrightarrow>
   dispatch rt e w ns name (args\<lparr>arg_namespace := x\<rparr>) = dispatch rt e w ns name args"
  by (simp add: dispatch_def scope_def force_flags_def cong: if_cong)

text \<open>
  With the namespace omitted, every call but that of \<^verbatim>\<open>k8s_apply_manifest\<close>, which adds
  its namespace flag only when the argument is given, is the same as the call with the
  default namespace written out.
\<close>

lemma omitted_namespace_as_default:
  assumes "arg_namespace args = None" "name \<noteq> ''k8s_apply_manifest''"
  shows "handleTool rt e w name args =
         handleTool rt e w name (args\<lparr>arg_namespace := Some (K8S_DEFAULT_NAMESPACE e)\<rparr>)"
  using assms default_ns_not_empty [of e]
  by (simp add: handleTool_def getNamespace_def or_else_def dispatch_namespace_arg)



subsection \<open>A process that exits with a nonzero status\<close>

lemma await_resolved:
  "settle (w (inv_command (spawned e kargs i)) (inv_args (spawned e kargs i))
     (inv_stdin (spawned e kargs i))) = Resolved result \<Longrightarrow>
   await_runKubectl e w kargs i k = ([spawned e kargs i], k result)"
  by (simp add: await_runKubectl_def runKubectl_def spawn_call_def Let_def)

lemma dispatch_failed:
  assumes "name \<in> set case_labels" "name \<noteq> ''k8s_exec_pod''"
    and "\<forall>p \<in> set (fst (dispatch rt e w ns name args)).
           settle (w (inv_command p) (inv_args p) (inv_stdin p)) = Resolved result"
    and "code result \<noteq> 0"
  shows "snd (dispatch rt e w ns name args) =
           Rejected (if (name = ''k8s_top_nodes'' \<or> name = ''k8s_top_pods'') \<and> stderr result = []
                     then ''Metrics server may not be installed'' else stderr result)"
  using assms unfolding case_labels_def
  apply (simp only: set_simps insert_iff empty_iff)
  apply (elim disjE)
  apply (simp_all add: dispatch_def await_resolved or_else_def)
  done

text \<open>
  Claim C1, as stated, at \<^verbatim>\<open>k8s_exec_pod\<close>. The process of the call prints \<^verbatim>\<open>out\<close> and
  \<^verbatim>\<open>boom\<close> and exits with status 1; the reply is the two texts one after the other and
  is not flagged as an error, since the branch never looks at the exit code.
\<close>

theorem exec_pod_nonzero_exit_counterexample:
  "fst (handleTool rt_none env_local world_fail ''k8s_exec_pod'' args_min) =
     [spawned env_local
        [''exec'', ''web'', ''-n'', ''default'', ''--'',
         ''sh'', ''-c'', [dquote] @ ''echo'', ''hi'' @ [dquote]] None] \<and>
   runKubectl env_local world_fail
     [''exec'', ''web'', ''-n'', ''default'', ''--'',
      ''sh'', ''-c'', [dquote] @ ''echo'', ''hi'' @ [dquote]] None =
     Resolved \<lparr>stdout = ''out'', stderr = ''boom'', code = 1\<rparr> \<and>
   callTool rt_none env_local world_fail ''k8s_exec_pod'' args_min =
     Some \<lparr>content_text = ''outboom'', isError = False\<rparr>"
  by (simp add: callTool_def handleTool_def dispatch_def await_runKubectl_def runKubectl_def
      spawn_call_def world_fail_def args_min_def split_def getNamespace_def
      K8S_DEFAULT_NAMESPACE_def env_local_def or_else_def push_str_def)

text \<open>
  Claim C1, amended. For every tool of the \<^verbatim>\<open>switch\<close> other than \<^verbatim>\<open>k8s_exec_pod\<close>: when
  the process that the call started exits with a nonzero status, the reply is flagged as
  an error and its text is \<^verbatim>\<open>Error: \<close> followed by the captured standard error, except
  that \<^verbatim>\<open>k8s_top_nodes\<close> and \<^verbatim>\<open>k8s_top_pods\<close> put the fixed text
  \<^verbatim>\<open>Metrics server may not be installed\<close> in the place of an empty standard error.
\<close>

theorem nonzero_exit_flagged:
  assumes "name \<in> set case_labels" "name \<noteq> ''k8s_exec_pod''"
    and "\<forall>p \<in> set (fst (handleTool rt e w name args)).
           settle (w (inv_command p) (inv_args p) (inv_stdin p)) = Resolved result"
    and "code result \<noteq> 0"
  shows "callTool rt e w name args =
           Some \<lparr>content_text = ''Error: '' @
                    (if (name = ''k8s_top_nodes'' \<or> name = ''k8s_top_pods'') \<and> stderr result = []
                     then ''Metrics server may not be installed'' else stderr result),
                 isError = True\<rparr>"
  using dispatch_failed [of name rt e w "getNamespace e (arg_namespace args)" args result] assms
  by (simp add: callTool_def handleTool_def)

theorem nonzero_exit_flagged_witness:
  "callTool rt_none env_local world_silent ''k8s_top_nodes'' args_min =
     Some \<lparr>content_text = ''Error: Metrics server may not be installed'', isError = True\<rparr> \<and>
   callTool rt_none env_local world_fail ''k8s_get_secret'' args_min =
     Some \<lparr>content_text = ''Error: boom'', isError = True\<rparr>"
proof -
  have a: "callTool rt_none env_local world_silent ''k8s_top_nodes'' args_min =
     Some \<lparr>content_text = ''Error: Metrics server may not be installed'', isError = True\<rparr>"
    using nonzero_exit_flagged [of "''k8s_top_nodes''" rt_none env_local world_silent args_min
        "\<lparr>stdout = [], stderr = [], code = 1\<rparr>"]
    by (simp add: case_labels_def world_silent_def)
  have b: "callTool rt_none env_local world_fail ''k8s_get_secret'' args_min =
     Some \<lparr>content_text = ''Error: boom'', isError = True\<rparr>"
    using nonzero_exit_flagged [of "''k8s_get_secret''" rt_none env_local world_fail args_min
        "\<lparr>stdout = ''out'', stderr = ''boom'', code = 1\<rparr>"]
    by (simp add: case_labels_def world_fail_def)
  show ?thesis using a b by simp
qed

subsection \<open>Decoding a secret\<close>

text \<open>The reply of \<^verbatim>\<open>k8s_get_secret\<close> when the client succeeds and its output parses.\<close>

lemma get_secret_reply:
  assumes "runKubectl e w [''get'', ''secret'', arg_name args, ''-n'',
             getNamespace e (arg_namespace args), ''-o'', ''json''] None = Resolved result"
    and "code result = 0"
    and "JSON_parse rt (stdout result) = Inr secret"
    and "secret_view rt (arg_decode args) secret = Inr view"
  shows "callTool rt e w ''k8s_get_secret'' args =
           Some \<lparr>content_text = JSON_stringify rt view, isError = False\<rparr>"
  using assms
  by (simp add: callTool_def handleTool_def dispatch_def await_runKubectl_def reshape_def
      bind_err_def of_sum_def)

text \<open>
  The reply has a \<^verbatim>\<open>decodedData\<close> entry exactly when the decode flag is true and the
  secret has data.
\<close>

lemma secret_view_decodedData_iff:
  assumes "secret_view rt decode secret = Inr view"
  shows "\<exists>response data. view = JObj response \<and> get_prop rt secret ''data'' = Inr data \<and>
           ((map_of response ''decodedData'' \<noteq> None) = (truthy_bool decode \<and> truthy data))"
  using assms
  by (auto simp: secret_view_def bind_err_def Let_def split: sum.splits if_splits)

lemma decode_entries_strings:
  "decode_entries rt acc (map (\<lambda>(k, s). (k, JStr s)) kss) =
     Inr (foldl (\<lambda>a (k, s). set_prop a k (base64_utf8 rt s)) acc kss)"
  by (induction kss arbitrary: acc) (auto simp: bind_err_def decode_value_def)

lemma map_of_update_entry: "map_of (update_entry k v kvs) = (map_of kvs)(k \<mapsto> v)"
  by (induction kvs) auto

lemma map_of_set_prop:
  "map_of (set_prop obj key s) =
     (if key = ''__proto__'' then map_of obj else (map_of obj)(key \<mapsto> JStr s))"
  by (simp add: set_prop_def map_of_update_entry)

lemma map_of_decoded:
  "distinct (map fst kss) \<Longrightarrow>
   map_of (foldl (\<lambda>a (k, s). set_prop a k (base64_utf8 rt s)) acc kss) key =
     (if key \<noteq> ''__proto__'' \<and> key \<in> fst ` set kss
      then map_option (\<lambda>s. JStr (base64_utf8 rt s)) (map_of kss key)
      else map_of acc key)"
proof (induction kss arbitrary: acc)
  case Nil
  then show ?case by simp
next
  case (Cons ks kss)
  obtain k s where ks: "ks = (k, s)" by (cases ks)
  have d: "distinct (map fst kss)" "k \<notin> fst ` set kss" using Cons.prems ks by auto
  show ?case
    using Cons.IH [OF d(1), of "set_prop acc k (base64_utf8 rt s)"] d(2)
    by (auto simp: ks map_of_set_prop)
qed

text \<open>
  With the decode flag true, every data key other than \<^verbatim>\<open>__proto__\<close> is in
  \<^verbatim>\<open>decodedData\<close> with the base64 decoding of its value.
\<close>

lemma secret_decoded_values:
  assumes "distinct (map fst kss)"
    and "get_prop rt secret ''data'' = Inr (JObj (map (\<lambda>(k, s). (k, JStr s)) kss))"
    and "secret_view rt (Some True) secret = Inr view"
    and "(key, s) \<in> set kss" "key \<noteq> ''__proto__''"
  shows "\<exists>response decodedData. view = JObj response \<and>
           map_of response ''decodedData'' = Some (JObj decodedData) \<and>
           map_of decodedData key = Some (JStr (base64_utf8 rt s))"
proof -
  have m: "map_of kss key = Some s" using assms(1,4) by simp
  have i: "key \<in> fst ` set kss" using assms(4) by force
  show ?thesis
    using assms(2,3,5) m i map_of_decoded [OF assms(1), of rt "[]" key]
    by (auto simp: secret_view_def bind_err_def Let_def truthy_bool_def decode_entries_strings
        split: sum.splits)
qed

lemma secret_two_decoded:
  "secret_view rt (Some True) secret_two =
     Inr (JObj [(''name'', JStr ''s''),
                (''namespace'', JStr ''default''),
                (''type'', JStr ''Opaque''),
                (''keys'', JArr [JStr ''user'', JStr ''pass'']),
                (''decodedData'',
                 JObj [(''user'', JStr (base64_utf8 rt ''YQ=='')),
                       (''pass'', JStr (base64_utf8 rt ''Yg==''))])])"
  by (simp add: secret_view_def secret_two_def bind_err_def Object_keys_def truthy_bool_def
      decode_value_def set_prop_def)

text \<open>
  Claim C3, at a secret whose data has the key \<^verbatim>\<open>__proto__\<close>, with the decode flag true.
  The claim asks for the decoded value of every key of the data. The reply lists the key
  under \<^verbatim>\<open>keys\<close>, but \<^verbatim>\<open>decodedData\<close> is empty: the assignment of line 1042 to the key
  \<^verbatim>\<open>__proto__\<close> of an object literal makes no entry. The second part is the whole call,
  for a client that succeeds and whose output parses to that secret.
\<close>

theorem get_secret_proto_key_dropped:
  "secret_view rt (Some True) secret_proto =
     Inr (JObj [(''name'', JStr ''s''),
                (''namespace'', JStr ''default''),
                (''type'', JStr ''Opaque''),
                (''keys'', JArr [JStr ''__proto__'']),
                (''decodedData'', JObj [])]) \<and>
   callTool (rt\<lparr>JSON_parse := (\<lambda>t. Inr secret_proto)\<rparr>) env_local world_ok
       ''k8s_get_secret'' args_min =
     Some \<lparr>content_text =
             JSON_stringify rt
               (JObj [(''name'', JStr ''s''),
                      (''namespace'', JStr ''default''),
                      (''type'', JStr ''Opaque''),
                      (''keys'', JArr [JStr ''__proto__'']),
                      (''decodedData'', JObj [])]),
           isError = False\<rparr>"
proof -
  have v: "secret_view r (Some True) secret_proto =
     Inr (JObj [(''name'', JStr ''s''),
                (''namespace'', JStr ''default''),
                (''type'', JStr ''Opaque''),
                (''keys'', JArr [JStr ''__proto__'']),
                (''decodedData'', JObj [])])" for r
    by (simp add: secret_view_def secret_proto_def bind_err_def Object_keys_def
        truthy_bool_def decode_value_def set_prop_def)
  have d: "arg_decode args_min = Some True"
    by (simp add: args_min_def)
  show ?thesis
    by (simp add: v d callTool_def handleTool_def dispatch_def await_runKubectl_def
        runKubectl_def spawn_call_def world_ok_def reshape_def bind_err_def of_sum_def)
qed

end
